theory Spec2Isabelle
  imports Complex_Main "HOL-Library.Word" "HOL-Library.Log_Nat"
begin

section \<open>JavaScript numbers and Buffers\<close>

text \<open>
  A JavaScript \<^verbatim>\<open>number\<close> is modelled as an exact real; \<open>None\<close> stands for
  \<^verbatim>\<open>NaN\<close> and for \<^verbatim>\<open>undefined\<close> (what reading a Buffer out of range
  yields): both make every comparison false, turn every arithmetic result into
  \<^verbatim>\<open>NaN\<close>, and are stored into a Buffer as 0. The rounding of double arithmetic is
  modelled where the exact value of a byte can lie on a tie between two integers, in
  \<^verbatim>\<open>bakeAOIntoBaseColor\<close>; the values that the theorems below round at concrete
  inputs lie at least a tenth away from the next rounding boundary.
\<close>

type_synonym number = "real option"

type_synonym byte = "8 word"

type_synonym Buffer = "byte list"

definition Math_round :: "real \<Rightarrow> real" where
  \<comment> \<open>\<^verbatim>\<open>Math.round\<close>: the nearest integer, a tie going up.\<close>
  "Math_round x = of_int \<lfloor>x + 1 / 2\<rfloor>"

definition Math_floor :: "real \<Rightarrow> real" where
  "Math_floor x = of_int \<lfloor>x\<rfloor>"

definition js_gt :: "number \<Rightarrow> real \<Rightarrow> bool" where
  \<comment> \<open>\<^verbatim>\<open>x > c\<close> for a constant \<open>c\<close>\<close>
  "js_gt x c = (case x of None \<Rightarrow> False | Some v \<Rightarrow> v > c)"

definition js_lt :: "number \<Rightarrow> real \<Rightarrow> bool" where
  \<comment> \<open>\<^verbatim>\<open>x < c\<close>\<close>
  "js_lt x c = (case x of None \<Rightarrow> False | Some v \<Rightarrow> v < c)"

definition js_ge :: "number \<Rightarrow> real \<Rightarrow> bool" where
  \<comment> \<open>\<^verbatim>\<open>x >= c\<close>\<close>
  "js_ge x c = (case x of None \<Rightarrow> False | Some v \<Rightarrow> v \<ge> c)"

definition Buffer_alloc :: "nat \<Rightarrow> Buffer" where
  \<comment> \<open>\<^verbatim>\<open>Buffer.alloc(n)\<close>: \<open>n\<close> zero bytes\<close>
  "Buffer_alloc n = replicate n 0"

definition buf_get :: "Buffer \<Rightarrow> nat \<Rightarrow> number" where
  \<comment> \<open>\<^verbatim>\<open>buf[i]\<close> as a value: \<^verbatim>\<open>undefined\<close> out of range\<close>
  "buf_get buf i = (if i < length buf then Some (real (unat (buf ! i))) else None)"

definition ToUint8 :: "number \<Rightarrow> byte" where
  \<comment> \<open>the conversion a Buffer applies to a stored number: \<^verbatim>\<open>NaN\<close> becomes 0,
      a finite number is truncated towards zero and taken modulo 256\<close>
  "ToUint8 v = (case v of None \<Rightarrow> 0
                | Some x \<Rightarrow> word_of_int (if 0 \<le> x then \<lfloor>x\<rfloor> else \<lceil>x\<rceil>))"

definition buf_set :: "Buffer \<Rightarrow> nat \<Rightarrow> number \<Rightarrow> Buffer" where
  \<comment> \<open>\<^verbatim>\<open>buf[i] = v\<close>: a write out of range is ignored\<close>
  "buf_set buf i v = buf[i := ToUint8 v]"

definition byte_number :: "byte \<Rightarrow> number" where
  \<comment> \<open>a byte 0..255 as a number\<close>
  "byte_number w = Some (real (unat w))"

text \<open>
  Double arithmetic rounds the exact result of each operation to the nearest double.
  \<open>to_double\<close> is this rounding on the rationals: 53 significant bits, a tie going to
  the even neighbour. It holds between the least normal and the greatest double; what is
  rounded below is 0 or lies between \<open>1 / 512\<close> and 256.
\<close>

definition round_ties_even :: "rat \<Rightarrow> int" where
  \<comment> \<open>the nearest integer, a tie going to the even one\<close>
  "round_ties_even y =
     (let f = \<lfloor>y\<rfloor>
      in if y - of_int f < 1 / 2 then f
         else if 1 / 2 < y - of_int f then f + 1
         else if even f then f else f + 1)"

definition binary_exponent :: "rat \<Rightarrow> int" where
  \<comment> \<open>the \<open>e\<close> with \<open>2 ^ e \<le> \<bar>x\<bar> < 2 ^ (e + 1)\<close>, for \<open>x \<noteq> 0\<close>\<close>
  "binary_exponent x =
     (let (p, q) = quotient_of \<bar>x\<bar>;
          d = bitlen p - bitlen q
      in if 2 powi d \<le> \<bar>x\<bar> then d else d - 1)"

definition to_double :: "rat \<Rightarrow> rat" where
  "to_double x =
     (if x = 0 then 0
      else let ulp = 2 powi (binary_exponent x - 52)
           in of_int (round_ties_even (x / ulp)) * ulp)"

definition buf_get_rat :: "Buffer \<Rightarrow> nat \<Rightarrow> rat option" where
  \<comment> \<open>\<^verbatim>\<open>buf[i]\<close> as a rational, for double arithmetic: \<open>None\<close> out of range\<close>
  "buf_get_rat buf i = (if i < length buf then Some (of_nat (unat (buf ! i))) else None)"

section \<open>Types (types.ts)\<close>

datatype PredefinedMetal = Iron | Gold | Aluminum | Chrome | Copper | Lead | Platinum | Silver

fun PredefinedMetal_value :: "PredefinedMetal \<Rightarrow> real" where
  \<comment> \<open>the numeric value of each member of the enum\<close>
  "PredefinedMetal_value Iron = 230"
| "PredefinedMetal_value Gold = 231"
| "PredefinedMetal_value Aluminum = 232"
| "PredefinedMetal_value Chrome = 233"
| "PredefinedMetal_value Copper = 234"
| "PredefinedMetal_value Lead = 235"
| "PredefinedMetal_value Platinum = 236"
| "PredefinedMetal_value Silver = 237"

section \<open>WorkflowConverter (workflowConverter.ts)\<close>

definition roughnessToSmoothness :: "number \<Rightarrow> number" where
  \<comment> \<open>\<^verbatim>\<open>Math.sqrt\<close> of a negative number is \<^verbatim>\<open>NaN\<close>, which
      \<^verbatim>\<open>Math.round\<close>, \<^verbatim>\<open>Math.min\<close> and \<^verbatim>\<open>Math.max\<close> pass on.\<close>
  "roughnessToSmoothness roughness =
     (case roughness of
        None \<Rightarrow> None
      | Some x \<Rightarrow>
          (let normalizedRoughness = x / 255 in
           if normalizedRoughness < 0 then None
           else
             let smoothness = 1 - sqrt normalizedRoughness
             in Some (max 0 (min 255 (Math_round (smoothness * 255))))))"

definition smoothnessToRoughness :: "number \<Rightarrow> number" where
  "smoothnessToRoughness smoothness =
     (case smoothness of
        None \<Rightarrow> None
      | Some x \<Rightarrow>
          (let normalizedSmoothness = x / 255;
               roughness = (1 - normalizedSmoothness) ^ 2
           in Some (max 0 (min 255 (Math_round (roughness * 255))))))"

definition metallicToF0 :: "number \<Rightarrow> number" where
  "metallicToF0 metallic =
     (case metallic of
        None \<Rightarrow> None
      | Some m \<Rightarrow>
          if m > 200 then Some (min 255 (230 + Math_floor ((m - 200) / 5)))
          else
            (let baseF0 = 4;
                 maxF0 = 229;
                 scaledF0 = baseF0 + (m / 255) * (maxF0 - baseF0)
             in Some (Math_round scaledF0)))"

definition convertEmissive :: "number \<Rightarrow> number" where
  "convertEmissive emissive =
     (case emissive of None \<Rightarrow> None | Some e \<Rightarrow> Some (min 254 e))"

definition isMetallic :: "number \<Rightarrow> bool" where
  "isMetallic metallic = js_gt metallic 200"

definition getPredefinedMetal :: "number \<Rightarrow> number \<Rightarrow> number \<Rightarrow> number" where
  "getPredefinedMetal r g b =
     (if js_gt r 200 \<and> js_gt g 150 \<and> js_lt b 100 then Some (PredefinedMetal_value Gold)
      else if js_gt r 200 \<and> js_lt g 150 \<and> js_lt b 100 then Some (PredefinedMetal_value Copper)
      else if js_gt r 200 \<and> js_gt g 200 \<and> js_gt b 200 then Some (PredefinedMetal_value Silver)
      else if js_gt r 100 \<and> js_lt r 200 \<and> js_gt g 100 \<and> js_lt g 200
              \<and> js_gt b 100 \<and> js_lt b 200
        then Some (PredefinedMetal_value Iron)
      else Some (PredefinedMetal_value Iron))"

definition convertSubsurface :: "number \<Rightarrow> number" where
  "convertSubsurface subsurface =
     (case subsurface of
        None \<Rightarrow> None
      | Some s \<Rightarrow>
          if s = 0 then Some 0
          else Some (65 + Math_floor ((s / 255) * (255 - 65))))"

definition convertPorosity :: "number \<Rightarrow> number" where
  "convertPorosity porosity =
     (case porosity of None \<Rightarrow> None | Some p \<Rightarrow> Some (Math_round (p * 64)))"

section \<open>Texture data (types.ts)\<close>

text \<open>
  The fields of the interfaces carry a prefix, since a record field is a constant of the
  theory: \<open>tex_width\<close> is \<^verbatim>\<open>TextureData.width\<close>, \<open>chan_r\<close> is
  \<^verbatim>\<open>ChannelData.r\<close>, and so on.
\<close>

record TextureData =
  tex_width :: nat
  tex_height :: nat
  tex_data :: Buffer
  tex_channels :: nat

record ChannelData =
  chan_r :: Buffer
  chan_g :: Buffer
  chan_b :: Buffer
  chan_a :: "Buffer option"
  chan_width :: nat
  chan_height :: nat

record MERChannels =
  mer_metallic :: Buffer
  mer_emissive :: Buffer
  mer_roughness :: Buffer
  mer_subsurface :: "Buffer option"

section \<open>ChannelExtractor (channelExtractor.ts)\<close>

definition extractChannels_step ::
  "Buffer \<Rightarrow> nat \<Rightarrow> nat \<Rightarrow> Buffer \<times> Buffer \<times> Buffer \<times> Buffer option
     \<Rightarrow> Buffer \<times> Buffer \<times> Buffer \<times> Buffer option" where
  \<comment> \<open>the body of the loop of \<^verbatim>\<open>extractChannels\<close>, at pixel \<open>i\<close>\<close>
  "extractChannels_step data channels i = (\<lambda>(r, g, b, a).
     let offset = i * channels in
     (buf_set r i (buf_get data offset),
      buf_set g i (buf_get data (offset + 1)),
      buf_set b i (buf_get data (offset + 2)),
      if channels = 4
      then (case a of Some a' \<Rightarrow> Some (buf_set a' i (buf_get data (offset + 3))) | None \<Rightarrow> None)
      else a))"

definition extractChannels :: "TextureData \<Rightarrow> ChannelData" where
  "extractChannels textureData =
     (let width = tex_width textureData;
          height = tex_height textureData;
          data = tex_data textureData;
          channels = tex_channels textureData;
          pixelCount = width * height;
          r = Buffer_alloc pixelCount;
          g = Buffer_alloc pixelCount;
          b = Buffer_alloc pixelCount;
          a = (if channels = 4 then Some (Buffer_alloc pixelCount) else None);
          (r, g, b, a) = fold (extractChannels_step data channels) [0..<pixelCount] (r, g, b, a)
      in \<lparr>chan_r = r, chan_g = g, chan_b = b, chan_a = a,
          chan_width = width, chan_height = height\<rparr>)"

definition extractMERChannels :: "TextureData \<Rightarrow> MERChannels" where
  "extractMERChannels textureData =
     (let channels = extractChannels textureData
      in \<lparr>mer_metallic = chan_r channels,
          mer_emissive = chan_g channels,
          mer_roughness = chan_b channels,
          mer_subsurface = chan_a channels\<rparr>)"

definition combineChannels_step ::
  "Buffer \<Rightarrow> Buffer \<Rightarrow> Buffer \<Rightarrow> Buffer option \<Rightarrow> nat \<Rightarrow> nat \<Rightarrow> Buffer \<Rightarrow> Buffer" where
  \<comment> \<open>the body of the loop of \<^verbatim>\<open>combineChannels\<close>, at pixel \<open>i\<close>\<close>
  "combineChannels_step r g b a channelCount i data =
     (let offset = i * channelCount;
          data = buf_set data offset (buf_get r i);
          data = buf_set data (offset + 1) (buf_get g i);
          data = buf_set data (offset + 2) (buf_get b i)
      in case a of
           Some a' \<Rightarrow> buf_set data (offset + 3) (buf_get a' i)
         | None \<Rightarrow> data)"

definition combineChannels :: "ChannelData \<Rightarrow> TextureData" where
  "combineChannels channels =
     (let width = chan_width channels;
          height = chan_height channels;
          r = chan_r channels;
          g = chan_g channels;
          b = chan_b channels;
          a = chan_a channels;
          pixelCount = width * height;
          hasAlpha = (a \<noteq> None);
          channelCount = (if hasAlpha then 4 else 3);
          data = Buffer_alloc (pixelCount * channelCount);
          data = fold (combineChannels_step r g b a channelCount) [0..<pixelCount] data
      in \<lparr>tex_width = width, tex_height = height, tex_data = data,
          tex_channels = channelCount\<rparr>)"

section \<open>PBRConverter.createSpecularTexture (pbrConverter.ts)\<close>

definition createSpecularTexture_step ::
  "MERChannels \<Rightarrow> ChannelData \<Rightarrow> nat \<Rightarrow> Buffer \<times> Buffer \<times> Buffer \<times> Buffer
     \<Rightarrow> Buffer \<times> Buffer \<times> Buffer \<times> Buffer" where
  \<comment> \<open>the body of the loop over the pixels, at pixel \<open>i\<close>\<close>
  "createSpecularTexture_step merChannels colorChannels i = (\<lambda>(smoothness, f0, porosity, emission).
     let metallic = mer_metallic merChannels;
         emissive = mer_emissive merChannels;
         roughness = mer_roughness merChannels;
         subsurface = mer_subsurface merChannels
     in
     (buf_set smoothness i (roughnessToSmoothness (buf_get roughness i)),
      (if isMetallic (buf_get metallic i)
       then buf_set f0 i (getPredefinedMetal
              (buf_get (chan_r colorChannels) i)
              (buf_get (chan_g colorChannels) i)
              (buf_get (chan_b colorChannels) i))
       else buf_set f0 i (metallicToF0 (buf_get metallic i))),
      (case subsurface of
         Some sub \<Rightarrow>
           if js_gt (buf_get sub i) 0
           then buf_set porosity i (convertSubsurface (buf_get sub i))
           else buf_set porosity i (convertPorosity (Some (1 / 10)))
       | None \<Rightarrow> buf_set porosity i (convertPorosity (Some (1 / 10)))),
      buf_set emission i (convertEmissive (buf_get emissive i))))"

definition createSpecularTexture ::
  "MERChannels \<Rightarrow> ChannelData \<Rightarrow> nat \<Rightarrow> nat \<Rightarrow> TextureData" where
  "createSpecularTexture merChannels colorChannels width height =
     (let pixelCount = width * height;
          smoothness = Buffer_alloc pixelCount;
          f0 = Buffer_alloc pixelCount;
          porosity = Buffer_alloc pixelCount;
          emission = Buffer_alloc pixelCount;
          (smoothness, f0, porosity, emission) =
             fold (createSpecularTexture_step merChannels colorChannels) [0..<pixelCount]
               (smoothness, f0, porosity, emission)
      in combineChannels
           \<lparr>chan_r = smoothness, chan_g = f0, chan_b = porosity, chan_a = Some emission,
            chan_width = width, chan_height = height\<rparr>)"

definition specularFromTextures :: "TextureData \<Rightarrow> TextureData \<Rightarrow> TextureData" where
  \<comment> \<open>\<^verbatim>\<open>PBRConverter.convertTexture\<close> between loading the two textures and saving
      the result: the specular texture made from the loaded MER and colour textures\<close>
  "specularFromTextures merTextureData colorTextureData =
     (let merChannels = extractMERChannels merTextureData;
          colorChannels = extractChannels colorTextureData
      in createSpecularTexture merChannels colorChannels
           (tex_width merTextureData) (tex_height merTextureData))"

section \<open>BidirectionalConverter.createMERTexture (bidirectionalConverter.ts)\<close>

definition createMERTexture_step ::
  "ChannelData \<Rightarrow> nat \<Rightarrow> Buffer \<times> Buffer \<times> Buffer \<times> Buffer
     \<Rightarrow> Buffer \<times> Buffer \<times> Buffer \<times> Buffer" where
  \<comment> \<open>the body of the loop over the pixels, at pixel \<open>i\<close>; \<^verbatim>\<open>255 - undefined\<close>
      is \<^verbatim>\<open>NaN\<close>\<close>
  "createMERTexture_step specularChannels i = (\<lambda>(metallic, emissive, roughness, subsurface).
     let f0 = buf_get (chan_g specularChannels) i in
     ((if js_ge f0 230 then buf_set metallic i (Some 255)
       else if js_ge f0 200 then buf_set metallic i (Some 255)
       else if js_ge f0 150 then buf_set metallic i (Some 230)
       else if js_ge f0 100 then buf_set metallic i (Some 180)
       else if js_ge f0 50 then buf_set metallic i (Some 100)
       else buf_set metallic i (Some 0)),
      buf_set emissive i (Some 0),
      buf_set roughness i
        (case buf_get (chan_r specularChannels) i of None \<Rightarrow> None | Some s \<Rightarrow> Some (255 - s)),
      (if js_ge (buf_get (chan_b specularChannels) i) 65
       then buf_set subsurface i (buf_get (chan_b specularChannels) i)
       else buf_set subsurface i (Some 255))))"

definition createMERTexture :: "ChannelData \<Rightarrow> ChannelData \<Rightarrow> nat \<Rightarrow> nat \<Rightarrow> TextureData" where
  \<comment> \<open>the normal channels are a parameter that the function never reads\<close>
  "createMERTexture specularChannels normalChannels width height =
     (let pixelCount = width * height;
          metallic = Buffer_alloc pixelCount;
          emissive = Buffer_alloc pixelCount;
          roughness = Buffer_alloc pixelCount;
          subsurface = Buffer_alloc pixelCount;
          (metallic, emissive, roughness, subsurface) =
             fold (createMERTexture_step specularChannels) [0..<pixelCount]
               (metallic, emissive, roughness, subsurface)
      in combineChannels
           \<lparr>chan_r = metallic, chan_g = emissive, chan_b = roughness, chan_a = Some subsurface,
            chan_width = width, chan_height = height\<rparr>)"

section \<open>The subsurface decision of convertLabPBRToBedrock\<close>

function hasSubsurface_scan :: "Buffer \<Rightarrow> nat \<Rightarrow> nat \<Rightarrow> bool" where
  \<comment> \<open>the loop that looks for a pixel with subsurface scattering, from pixel \<open>i\<close> on:
      it stops at the first one found\<close>
  "hasSubsurface_scan b pixelCount i =
     (if i < pixelCount
      then (if js_ge (buf_get b i) 65 then True else hasSubsurface_scan b pixelCount (Suc i))
      else False)"
  by pat_completeness auto
termination
  by (relation "measure (\<lambda>(b, pixelCount, i). pixelCount - i)") auto

declare hasSubsurface_scan.simps [simp del]

definition forceOpaqueAlpha :: "TextureData \<Rightarrow> TextureData" where
  \<comment> \<open>the branch taken when no subsurface scattering was found: it writes 255 at the
      indices \<open>alphaOffset + i\<close> of the data of the MER texture\<close>
  "forceOpaqueAlpha merTexture =
     (let pixelCount = tex_width merTexture * tex_height merTexture;
          alphaOffset = pixelCount * 3
      in merTexture\<lparr>tex_data :=
           fold (\<lambda>i data. buf_set data (alphaOffset + i) (Some 255)) [0..<pixelCount]
             (tex_data merTexture)\<rparr>)"

definition merFromTextures :: "TextureData \<Rightarrow> TextureData \<Rightarrow> TextureData \<times> bool \<times> string" where
  \<comment> \<open>\<^verbatim>\<open>convertLabPBRToBedrock\<close> between loading the textures and saving the MER
      texture: the texture that is saved, whether subsurface scattering was found, and
      the suffix of the file name\<close>
  "merFromTextures specularTextureData normalTextureData =
     (let specularChannels = extractChannels specularTextureData;
          normalChannels = extractChannels normalTextureData;
          merTexture = createMERTexture specularChannels normalChannels
                         (tex_width specularTextureData) (tex_height specularTextureData);
          pixelCount = tex_width specularTextureData * tex_height specularTextureData;
          hasSubsurface = hasSubsurface_scan (chan_b specularChannels) pixelCount 0;
          fileSuffix = (if hasSubsurface then ''_mers'' else ''_mer'');
          merTexture = (if \<not> hasSubsurface then forceOpaqueAlpha merTexture else merTexture)
      in (merTexture, hasSubsurface, fileSuffix))"

section \<open>NormalMapProcessor (normalMapProcessor.ts)\<close>

datatype error = Error string | Thrown string
  \<comment> \<open>a thrown value: an \<^verbatim>\<open>Error\<close> object with its message, or any other value
      with its conversion to a string\<close>

fun error_message :: "error \<Rightarrow> string" where
  \<comment> \<open>\<^verbatim>\<open>error instanceof Error ? error.message : String(error)\<close>\<close>
  "error_message (Error m) = m"
| "error_message (Thrown s) = s"

fun error_string :: "error \<Rightarrow> string" where
  \<comment> \<open>the thrown value inside a template string\<close>
  "error_string (Error m) = ''Error: '' @ m"
| "error_string (Thrown s) = s"

definition extractHeightMap :: "TextureData \<Rightarrow> error + TextureData" where
  "extractHeightMap normalTextureData =
     (let width = tex_width normalTextureData;
          height = tex_height normalTextureData;
          channels = tex_channels normalTextureData
      in if channels \<noteq> 4
         then Inl (Error ''Normal texture does not have an alpha channel for heightmap extraction'')
         else
           (let channelData = extractChannels normalTextureData
            in case chan_a channelData of
                 None \<Rightarrow> Inl (Error ''Failed to extract alpha channel from normal texture'')
               | Some a \<Rightarrow>
                   (let heightmapData = Buffer_alloc (width * height);
                        heightmapData =
                          fold (\<lambda>i heightmapData. buf_set heightmapData i (buf_get a i))
                            [0..<width * height] heightmapData
                    in Inr \<lparr>tex_width = width, tex_height = height, tex_data = heightmapData,
                             tex_channels = 1\<rparr>)))"

definition reconstructNormalMap_step :: "ChannelData \<Rightarrow> nat \<Rightarrow> Buffer \<Rightarrow> Buffer" where
  \<comment> \<open>the body of the loop, at pixel \<open>i\<close>; the argument of the square root is never
      negative\<close>
  "reconstructNormalMap_step channelData i outputData =
     (let r = map_option (\<lambda>x. x / 255) (buf_get (chan_r channelData) i);
          g = map_option (\<lambda>x. x / 255) (buf_get (chan_g channelData) i);
          b = (case (r, g) of
                 (Some r', Some g') \<Rightarrow> Some (sqrt (1 - min 1 (r' * r' + g' * g')))
               | _ \<Rightarrow> None);
          b = (case b of None \<Rightarrow> 0 | Some v \<Rightarrow> if v < 0 then 0 else v);
          bValue = Math_round (b * 255);
          outOffset = i * 3;
          outputData = buf_set outputData outOffset (buf_get (chan_r channelData) i);
          outputData = buf_set outputData (outOffset + 1) (buf_get (chan_g channelData) i)
      in buf_set outputData (outOffset + 2) (Some bValue))"

definition reconstructNormalMap :: "TextureData \<Rightarrow> TextureData" where
  "reconstructNormalMap normalTextureData =
     (let width = tex_width normalTextureData;
          height = tex_height normalTextureData;
          channelData = extractChannels normalTextureData;
          outputData = Buffer_alloc (width * height * 3);
          outputData = fold (reconstructNormalMap_step channelData) [0..<width * height] outputData
      in \<lparr>tex_width = width, tex_height = height, tex_data = outputData, tex_channels = 3\<rparr>)"

definition bakeAOIntoBaseColor_step :: "Buffer \<Rightarrow> TextureData \<Rightarrow> nat \<Rightarrow> Buffer \<Rightarrow> Buffer" where
  \<comment> \<open>the body of the loop over the pixels, with its inner loop over the channels; the
      factor and the product are doubles, rounded operation by operation
      (\<^verbatim>\<open>Math.round\<close> itself is exact)\<close>
  "bakeAOIntoBaseColor_step aoData baseColorData i outputData =
     (let channels = tex_channels baseColorData;
          aoFactor = map_option (\<lambda>ao. to_double (1 - to_double (ao / 255)))
                       (buf_get_rat aoData i);
          inOffset = i * channels;
          outOffset = i * channels
      in fold (\<lambda>c outputData.
                 if c < 3
                 then buf_set outputData (outOffset + c)
                        (case (buf_get_rat (tex_data baseColorData) (inOffset + c), aoFactor) of
                           (Some v, Some f) \<Rightarrow>
                             Some (Math_round
                                     (of_rat (to_double (v * to_double (1 - to_double (f * (1 / 2)))))))
                         | _ \<Rightarrow> None)
                 else buf_set outputData (outOffset + c)
                        (buf_get (tex_data baseColorData) (inOffset + c)))
           [0..<channels] outputData)"

definition bakeAOIntoBaseColor :: "Buffer \<Rightarrow> TextureData \<Rightarrow> TextureData" where
  "bakeAOIntoBaseColor aoData baseColorData =
     (let width = tex_width baseColorData;
          height = tex_height baseColorData;
          channels = tex_channels baseColorData;
          outputData = Buffer_alloc (width * height * channels);
          outputData = fold (bakeAOIntoBaseColor_step aoData baseColorData) [0..<width * height]
                         outputData
      in \<lparr>tex_width = width, tex_height = height, tex_data = outputData,
          tex_channels = channels\<rparr>)"

section \<open>The platform: file system, paths, image codec\<close>

text \<open>
  The functions of Node's \<^verbatim>\<open>fs\<close> and \<^verbatim>\<open>path\<close> modules, of the image library
  \<^verbatim>\<open>sharp\<close> and of the JavaScript strings and numbers that the code calls are
  parameters of the model. A call that can throw returns a sum. \<open>sharp_metadata\<close> gives
  the width and the height of the metadata of a file (0 when missing), \<open>sharp_raw\<close> its
  raw data and number of channels. \<open>sharp_new\<close> stands for making an image from raw
  data, and \<open>sharp_toFile\<close> for encoding it as \<open>jpeg\<close> or \<open>png\<close> with a quality or
  compression level and writing it.
\<close>

record platform =
  fs_existsSync :: "string \<Rightarrow> bool"
  fs_mkdirSync :: "string \<Rightarrow> error + unit"
  path_dirname :: "string \<Rightarrow> string"
  path_basename :: "string \<Rightarrow> string"
  path_basename_ext :: "string \<Rightarrow> string \<Rightarrow> string"
  path_extname :: "string \<Rightarrow> string"
  path_join :: "string \<Rightarrow> string \<Rightarrow> string"
  string_toLowerCase :: "string \<Rightarrow> string"
  number_toFixed :: "real \<Rightarrow> nat \<Rightarrow> string"
  sharp_metadata :: "string \<Rightarrow> error + nat \<times> nat"
  sharp_raw :: "string \<Rightarrow> error + Buffer \<times> nat"
  sharp_new :: "TextureData \<Rightarrow> error + unit"
  sharp_toFile :: "TextureData \<Rightarrow> string \<Rightarrow> real \<Rightarrow> string \<Rightarrow> error + unit"

definition endsWith :: "string \<Rightarrow> string \<Rightarrow> bool" where
  \<comment> \<open>\<^verbatim>\<open>s.endsWith(suffix)\<close>\<close>
  "endsWith s suffix = (length suffix \<le> length s \<and> drop (length s - length suffix) s = suffix)"

definition slice_end :: "string \<Rightarrow> nat \<Rightarrow> string" where
  \<comment> \<open>\<^verbatim>\<open>s.slice(0, -k)\<close>\<close>
  "slice_end s k = take (length s - k) s"

fun replace_first :: "string \<Rightarrow> string \<Rightarrow> string \<Rightarrow> string" where
  \<comment> \<open>\<^verbatim>\<open>s.replace(pattern, replacement)\<close> for a pattern that is a string: the first
      occurrence only\<close>
  "replace_first pattern replacement [] = (if pattern = [] then replacement else [])"
| "replace_first pattern replacement (c # cs) =
     (if take (length pattern) (c # cs) = pattern
      then replacement @ drop (length pattern) (c # cs)
      else c # replace_first pattern replacement cs)"

definition string_or :: "string option \<Rightarrow> string \<Rightarrow> string" where
  \<comment> \<open>\<^verbatim>\<open>a || b\<close> for an optional string \<open>a\<close>: \<^verbatim>\<open>undefined\<close> and the empty
      string are falsy\<close>
  "string_or a b = (case a of None \<Rightarrow> b | Some x \<Rightarrow> if x = [] then b else x)"

definition string_truthy :: "string option \<Rightarrow> bool" where
  "string_truthy a = (case a of None \<Rightarrow> False | Some x \<Rightarrow> x \<noteq> [])"

section \<open>TextureLoader (textureLoader.ts)\<close>

definition loadTexture :: "platform \<Rightarrow> string \<Rightarrow> error + TextureData" where
  \<comment> \<open>the outer \<open>case\<close> is the \<^verbatim>\<open>catch\<close> block, which throws a new error\<close>
  "loadTexture p filePath =
     (case (if \<not> fs_existsSync p filePath
            then Inl (Error (''Texture file not found: '' @ filePath))
            else
              (case sharp_metadata p filePath of
                 Inl e \<Rightarrow> Inl e
               | Inr (width, height) \<Rightarrow>
                   if width = 0 \<or> height = 0
                   then Inl (Error (''Invalid image dimensions for '' @ filePath))
                   else
                     (case sharp_raw p filePath of
                        Inl e \<Rightarrow> Inl e
                      | Inr (data, channels) \<Rightarrow>
                          Inr \<lparr>tex_width = width, tex_height = height, tex_data = data,
                               tex_channels = channels\<rparr>))) of
        Inl error \<Rightarrow>
          Inl (Error (''Failed to load texture '' @ filePath @ '': '' @ error_string error))
      | Inr textureData \<Rightarrow> Inr textureData)"

fun first_existing :: "platform \<Rightarrow> string \<Rightarrow> string list \<Rightarrow> string option" where
  \<comment> \<open>the loop of \<^verbatim>\<open>findColorTexture\<close> over the possible names\<close>
  "first_existing p dir [] = None"
| "first_existing p dir (name # names) =
     (let colorPath = path_join p dir name
      in if fs_existsSync p colorPath then Some colorPath else first_existing p dir names)"

definition findColorTexture :: "platform \<Rightarrow> string \<Rightarrow> string option" where
  "findColorTexture p merFilePath =
     (let dir = path_dirname p merFilePath;
          baseName = replace_first ''_mer'' ''''
                       (replace_first ''_mer.png'' ''''
                          (string_toLowerCase p (path_basename p merFilePath)));
          possibleNames = [baseName @ ''.png'', baseName @ ''_color.png'',
                           baseName @ ''_diffuse.png'']
      in first_existing p dir possibleNames)"

section \<open>TextureWriter (textureWriter.ts)\<close>

datatype OutputFormat = png | jpg | tga

fun OutputFormat_string :: "OutputFormat \<Rightarrow> string" where
  "OutputFormat_string png = ''png''"
| "OutputFormat_string jpg = ''jpg''"
| "OutputFormat_string tga = ''tga''"

definition saveTexture ::
  "platform \<Rightarrow> TextureData \<Rightarrow> string \<Rightarrow> OutputFormat option \<Rightarrow> number \<Rightarrow> error + string" where
  \<comment> \<open>the quality is \<^verbatim>\<open>undefined\<close> when \<open>None\<close>; \<^verbatim>\<open>undefined\<close> and 0 are falsy.
      The outer \<open>case\<close> is the \<^verbatim>\<open>catch\<close> block, which throws a new error.\<close>
  "saveTexture p textureData outputPath format_option quality =
     (case (let dir = path_dirname p outputPath in
            case (if \<not> fs_existsSync p dir then fs_mkdirSync p dir else Inr ()) of
              Inl e \<Rightarrow> Inl e
            | Inr _ \<Rightarrow>
            case sharp_new p textureData of
              Inl e \<Rightarrow> Inl e
            | Inr _ \<Rightarrow>
                (let format =
                       (case format_option of
                          Some f \<Rightarrow> OutputFormat_string f
                        | None \<Rightarrow>
                            (let ext = drop 1 (path_extname p outputPath)
                             in if ext = [] then ''png'' else ext));
                     lower = string_toLowerCase p format
                 in if lower = ''jpg'' \<or> lower = ''jpeg''
                    then (case sharp_toFile p textureData ''jpeg''
                                 (case quality of
                                    None \<Rightarrow> 90
                                  | Some q \<Rightarrow> if q = 0 then 90 else q) outputPath of
                            Inl e \<Rightarrow> Inl e
                          | Inr _ \<Rightarrow> Inr outputPath)
                    else if lower = ''tga''
                    then Inl (Error ''TGA format not supported in this version'')
                    else (case sharp_toFile p textureData ''png''
                                 (case quality of
                                    None \<Rightarrow> 6
                                  | Some q \<Rightarrow> if q = 0 then 6 else Math_floor (q / 10)) outputPath of
                            Inl e \<Rightarrow> Inl e
                          | Inr _ \<Rightarrow> Inr outputPath))) of
        Inl error \<Rightarrow>
          Inl (Error (''Failed to save texture to '' @ outputPath @ '': '' @ error_string error))
      | Inr path \<Rightarrow> Inr path)"

definition getSpecularTexturePath :: "platform \<Rightarrow> string \<Rightarrow> string" where
  "getSpecularTexturePath p sourcePath =
     (let dir = path_dirname p sourcePath;
          baseName = replace_first ''_color'' ''''
                       (replace_first ''_diffuse'' ''''
                          (replace_first ''_mer'' ''''
                             (path_basename_ext p sourcePath (path_extname p sourcePath))))
      in path_join p dir (baseName @ ''_s.png''))"

section \<open>FormatDetector (formatDetector.ts)\<close>

datatype TextureFormat = Bedrock | LabPBR | Unknown

fun TextureFormat_name :: "TextureFormat \<Rightarrow> string" where
  \<comment> \<open>\<^verbatim>\<open>TextureFormat[format]\<close>\<close>
  "TextureFormat_name Bedrock = ''Bedrock''"
| "TextureFormat_name LabPBR = ''LabPBR''"
| "TextureFormat_name Unknown = ''Unknown''"

datatype ConversionDirection = BedrockToLabPBR | LabPBRToBedrock | Auto

record DetectionResult =
  det_format :: TextureFormat
  det_baseTexturePath :: "string option"
  det_merTexturePath :: "string option"
  det_specularTexturePath :: "string option"
  det_normalTexturePath :: "string option"
  det_confidence :: real

text \<open>
  What \<^verbatim>\<open>detectFormat\<close> reads from the name of the file and from the file system,
  before it computes the scores: its local constants of the same names.
\<close>

record Probe =
  probe_isLabPBRSpecular :: bool
  probe_isLabPBRNormal :: bool
  probe_isBedrockMER :: bool
  probe_baseTexturePath :: string
  probe_specularTexturePath :: string
  probe_normalTexturePath :: string
  probe_merTexturePath :: string
  probe_hasBaseTexture :: bool
  probe_hasSpecularTexture :: bool
  probe_hasNormalTexture :: bool
  probe_hasMERTexture :: bool

definition probe :: "platform \<Rightarrow> string \<Rightarrow> Probe" where
  "probe p texturePath =
     (let dir = path_dirname p texturePath;
          baseName = path_basename_ext p texturePath (path_extname p texturePath);
          isLabPBRSpecular = endsWith baseName ''_s'';
          isLabPBRNormal = endsWith baseName ''_n'';
          isBedrockMER = endsWith baseName ''_mer'';
          baseNameWithoutSuffix =
            (if isLabPBRSpecular then slice_end baseName 2
             else if isLabPBRNormal then slice_end baseName 2
             else if isBedrockMER then slice_end baseName 4
             else baseName);
          baseTexturePath = path_join p dir (baseNameWithoutSuffix @ path_extname p texturePath);
          specularTexturePath =
            path_join p dir (baseNameWithoutSuffix @ ''_s'' @ path_extname p texturePath);
          normalTexturePath =
            path_join p dir (baseNameWithoutSuffix @ ''_n'' @ path_extname p texturePath);
          merTexturePath =
            path_join p dir (baseNameWithoutSuffix @ ''_mer'' @ path_extname p texturePath)
      in \<lparr>probe_isLabPBRSpecular = isLabPBRSpecular, probe_isLabPBRNormal = isLabPBRNormal,
          probe_isBedrockMER = isBedrockMER,
          probe_baseTexturePath = baseTexturePath,
          probe_specularTexturePath = specularTexturePath,
          probe_normalTexturePath = normalTexturePath,
          probe_merTexturePath = merTexturePath,
          probe_hasBaseTexture = fs_existsSync p baseTexturePath,
          probe_hasSpecularTexture = fs_existsSync p specularTexturePath,
          probe_hasNormalTexture = fs_existsSync p normalTexturePath,
          probe_hasMERTexture = fs_existsSync p merTexturePath\<rparr>)"

definition confidenceScores :: "Probe \<Rightarrow> real \<times> real" where
  \<comment> \<open>the two scores \<open>(labPBRConfidence, bedrockConfidence)\<close>\<close>
  "confidenceScores f =
     (let labPBRConfidence = 0;
          bedrockConfidence = 0;
          labPBRConfidence =
            (if probe_isLabPBRSpecular f \<or> probe_isLabPBRNormal f then labPBRConfidence + 4 / 10
             else labPBRConfidence);
          bedrockConfidence =
            (if probe_isBedrockMER f then bedrockConfidence + 4 / 10 else bedrockConfidence);
          labPBRConfidence =
            (if probe_hasSpecularTexture f \<and> probe_hasNormalTexture f then labPBRConfidence + 3 / 10
             else labPBRConfidence);
          bedrockConfidence =
            (if probe_hasMERTexture f then bedrockConfidence + 3 / 10 else bedrockConfidence);
          labPBRConfidence =
            (if probe_hasBaseTexture f then labPBRConfidence + 1 / 10 else labPBRConfidence);
          bedrockConfidence =
            (if probe_hasBaseTexture f then bedrockConfidence + 1 / 10 else bedrockConfidence)
      in (labPBRConfidence, bedrockConfidence))"

definition detectFormat :: "platform \<Rightarrow> string \<Rightarrow> DetectionResult" where
  "detectFormat p texturePath =
     (let result = \<lparr>det_format = Unknown, det_baseTexturePath = None, det_merTexturePath = None,
                     det_specularTexturePath = None, det_normalTexturePath = None,
                     det_confidence = 0\<rparr>;
          f = probe p texturePath;
          (labPBRConfidence, bedrockConfidence) = confidenceScores f
      in if labPBRConfidence > bedrockConfidence
         then result\<lparr>det_format := LabPBR, det_confidence := labPBRConfidence,
                det_baseTexturePath :=
                  (if probe_hasBaseTexture f then Some (probe_baseTexturePath f) else None),
                det_specularTexturePath :=
                  (if probe_hasSpecularTexture f then Some (probe_specularTexturePath f) else None),
                det_normalTexturePath :=
                  (if probe_hasNormalTexture f then Some (probe_normalTexturePath f) else None)\<rparr>
         else if bedrockConfidence > 0
         then result\<lparr>det_format := Bedrock, det_confidence := bedrockConfidence,
                det_baseTexturePath :=
                  (if probe_hasBaseTexture f then Some (probe_baseTexturePath f) else None),
                det_merTexturePath :=
                  (if probe_hasMERTexture f then Some (probe_merTexturePath f) else None)\<rparr>
         else result)"

section \<open>Conversion options and results (types.ts)\<close>

text \<open>
  Of the options, the fields that the conversions read. The output paths of a result are a
  map from the name of the field (\<open>specular\<close>, \<open>mer\<close>, and so on) to the path.
\<close>

record ConversionOptions =
  opt_outputFormat :: "OutputFormat option"
  opt_compressionLevel :: number
  opt_conversionDirection :: "ConversionDirection option"
  opt_bakeAO :: "bool option"
  opt_extractHeightMap :: "bool option"

record ConversionResult =
  res_sourcePath :: string
  res_outputPaths :: "string \<rightharpoonup> string"
  res_success :: bool
  res_messages :: "string list"
  res_conversionDirection :: "ConversionDirection option"

section \<open>Statements that change the result and may throw\<close>

text \<open>
  The body of a conversion changes its \<^verbatim>\<open>result\<close> object step by step and may throw
  at any call: a statement takes the result and returns the changed result with either
  the thrown value (\<open>Inl\<close>) or its value (\<open>Inr\<close>). What was pushed before a throw is
  still in the result when the \<^verbatim>\<open>catch\<close> block runs.
\<close>

type_synonym 'a action = "ConversionResult \<Rightarrow> (error + 'a) \<times> ConversionResult"

definition ereturn :: "'a \<Rightarrow> 'a action" where
  "ereturn x = (\<lambda>result. (Inr x, result))"

definition ethrow :: "error \<Rightarrow> 'a action" where
  \<comment> \<open>\<^verbatim>\<open>throw e\<close>\<close>
  "ethrow e = (\<lambda>result. (Inl e, result))"

definition ecall :: "error + 'a \<Rightarrow> 'a action" where
  \<comment> \<open>a call (awaited, when it is asynchronous) that returns or throws\<close>
  "ecall r = (\<lambda>result. (r, result))"

definition ebind :: "'a action \<Rightarrow> ('a \<Rightarrow> 'b action) \<Rightarrow> 'b action" where
  \<comment> \<open>one statement, then the rest with its value; a throw skips the rest\<close>
  "ebind m f = (\<lambda>result.
     case m result of
       (Inl e, result') \<Rightarrow> (Inl e, result')
     | (Inr x, result') \<Rightarrow> f x result')"

definition ethen :: "'a action \<Rightarrow> 'b action \<Rightarrow> 'b action" where
  "ethen m n = ebind m (\<lambda>_. n)"

definition try_catch :: "'a action \<Rightarrow> (error \<Rightarrow> 'a action) \<Rightarrow> 'a action" where
  \<comment> \<open>\<^verbatim>\<open>try { body } catch (error) { handler }\<close>\<close>
  "try_catch body handler = (\<lambda>result.
     case body result of
       (Inl e, result') \<Rightarrow> handler e result'
     | (Inr x, result') \<Rightarrow> (Inr x, result'))"

definition messages_push :: "string \<Rightarrow> unit action" where
  \<comment> \<open>\<^verbatim>\<open>result.messages.push(m)\<close>\<close>
  "messages_push m = (\<lambda>result. (Inr (), result\<lparr>res_messages := res_messages result @ [m]\<rparr>))"

definition set_outputPath :: "string \<Rightarrow> string \<Rightarrow> unit action" where
  \<comment> \<open>\<^verbatim>\<open>result.outputPaths.field = path\<close>\<close>
  "set_outputPath field path =
     (\<lambda>result. (Inr (), result\<lparr>res_outputPaths := (res_outputPaths result)(field \<mapsto> path)\<rparr>))"

definition set_success :: "bool \<Rightarrow> unit action" where
  \<comment> \<open>\<^verbatim>\<open>result.success = b\<close>\<close>
  "set_success b = (\<lambda>result. (Inr (), result\<lparr>res_success := b\<rparr>))"

definition return_result :: "ConversionResult action" where
  \<comment> \<open>\<^verbatim>\<open>return result\<close>\<close>
  "return_result = (\<lambda>result. (Inr result, result))"

definition catch_error :: "error \<Rightarrow> ConversionResult action" where
  \<comment> \<open>the \<^verbatim>\<open>catch\<close> block of the three conversions\<close>
  "catch_error error =
     ethen (messages_push (''Error: '' @ error_message error)) return_result"

section \<open>PBRConverter.convertTexture (pbrConverter.ts)\<close>

definition convertTexture_try ::
  "platform \<Rightarrow> string \<Rightarrow> string option \<Rightarrow> string option \<Rightarrow> ConversionOptions
     \<Rightarrow> ConversionResult action" where
  \<comment> \<open>the \<^verbatim>\<open>try\<close> block\<close>
  "convertTexture_try p merTexturePath colorTexturePath outputDir options =
     ebind
       (if \<not> string_truthy colorTexturePath
        then (case findColorTexture p merTexturePath of
                None \<Rightarrow> ethrow (Error ''Could not find corresponding color texture'')
              | Some foundTexturePath \<Rightarrow>
                  if foundTexturePath = []
                  then ethrow (Error ''Could not find corresponding color texture'')
                  else ethen (messages_push
                                (''Found color texture: '' @ path_basename p foundTexturePath))
                         (ereturn foundTexturePath))
        else ereturn (string_or colorTexturePath []))
       (\<lambda>colorTexturePath.
          let finalOutputDir = string_or outputDir (path_dirname p merTexturePath) in
          ethen (messages_push ''Loading textures...'')
         (ebind (ecall (loadTexture p merTexturePath)) (\<lambda>merTextureData.
          ebind (ecall (loadTexture p colorTexturePath)) (\<lambda>colorTextureData.
          ethen (messages_push ''Extracting channels...'')
         (ethen (messages_push ''Creating specular texture...'')
         (let specularTexture = specularFromTextures merTextureData colorTextureData;
              specularPath = getSpecularTexturePath p colorTexturePath;
              finalSpecularPath =
                (if string_truthy outputDir
                 then path_join p finalOutputDir (path_basename p specularPath)
                 else specularPath)
          in ebind (ecall (saveTexture p specularTexture finalSpecularPath
                             (opt_outputFormat options) (opt_compressionLevel options))) (\<lambda>_.
             ethen (set_outputPath ''specular'' finalSpecularPath)
            (ethen (messages_push
                      (''Saved specular texture to: '' @ path_basename p finalSpecularPath))
            (ethen (messages_push
                      ''Note: Normal map processing not implemented in this version'')
            (ethen (set_success True)
             return_result))))))))))"

definition convertTexture_result :: "string \<Rightarrow> ConversionResult" where
  \<comment> \<open>the result object that \<^verbatim>\<open>convertTexture\<close> starts with\<close>
  "convertTexture_result merTexturePath =
     \<lparr>res_sourcePath = merTexturePath, res_outputPaths = Map.empty, res_success = False,
      res_messages = [], res_conversionDirection = None\<rparr>"

definition convertTexture ::
  "platform \<Rightarrow> string \<Rightarrow> string option \<Rightarrow> string option \<Rightarrow> ConversionOptions
     \<Rightarrow> error + ConversionResult" where
  \<comment> \<open>\<open>Inl\<close>: the call throws (the promise is rejected); \<open>Inr\<close>: it returns the result\<close>
  "convertTexture p merTexturePath colorTexturePath outputDir options =
     (let result = convertTexture_result merTexturePath
      in fst (try_catch
                (convertTexture_try p merTexturePath colorTexturePath outputDir options)
                catch_error result))"

section \<open>BidirectionalConverter (bidirectionalConverter.ts)\<close>

definition outputPath :: "platform \<Rightarrow> string \<Rightarrow> string \<Rightarrow> string \<Rightarrow> string" where
  \<comment> \<open>the path of an output file: the name of the base texture with a suffix before its
      extension, in the output directory\<close>
  "outputPath p finalOutputDir baseTexturePath suffix =
     path_join p finalOutputDir
       (path_basename_ext p baseTexturePath (path_extname p baseTexturePath)
        @ suffix @ path_extname p baseTexturePath)"

definition saveMER ::
  "platform \<Rightarrow> ConversionOptions \<Rightarrow> string \<Rightarrow> string \<Rightarrow> TextureData \<Rightarrow> TextureData
     \<Rightarrow> unit action" where
  \<comment> \<open>from the creation of the MER texture to the message that it was saved\<close>
  "saveMER p options finalOutputDir baseTexturePath specularTextureData normalTextureData =
     (let (merTexture, hasSubsurface, fileSuffix) =
            merFromTextures specularTextureData normalTextureData;
          merPath = outputPath p finalOutputDir baseTexturePath fileSuffix
      in ebind (ecall (saveTexture p merTexture merPath
                         (opt_outputFormat options) (opt_compressionLevel options))) (\<lambda>_.
         ethen (set_outputPath ''mer'' merPath)
        (messages_push
           (''Saved '' @ (if hasSubsurface then ''MERS'' else ''MER'') @ '' texture to: ''
            @ path_basename p merPath))))"

definition saveBedrockNormal ::
  "platform \<Rightarrow> ConversionOptions \<Rightarrow> string \<Rightarrow> string \<Rightarrow> TextureData \<Rightarrow> unit action" where
  "saveBedrockNormal p options finalOutputDir baseTexturePath normalTextureData =
     ethen (messages_push ''Creating Bedrock normal map...'')
    (let bedrockNormalMap = reconstructNormalMap normalTextureData;
         normalPath = outputPath p finalOutputDir baseTexturePath ''_normal''
     in ebind (ecall (saveTexture p bedrockNormalMap normalPath
                        (opt_outputFormat options) (opt_compressionLevel options))) (\<lambda>_.
        ethen (set_outputPath ''bedrockNormal'' normalPath)
       (messages_push (''Saved normal map to: '' @ path_basename p normalPath))))"

definition saveHeightMap ::
  "platform \<Rightarrow> ConversionOptions \<Rightarrow> string \<Rightarrow> string \<Rightarrow> TextureData \<Rightarrow> unit action" where
  \<comment> \<open>\<^verbatim>\<open>options.extractHeightMap !== false\<close> holds for \<^verbatim>\<open>undefined\<close> too\<close>
  "saveHeightMap p options finalOutputDir baseTexturePath normalTextureData =
     (if opt_extractHeightMap options \<noteq> Some False \<and> tex_channels normalTextureData = 4
      then
        ethen (messages_push ''Extracting heightmap...'')
       (ebind (ecall (extractHeightMap normalTextureData)) (\<lambda>heightMap.
        let heightMapPath = outputPath p finalOutputDir baseTexturePath ''_heightmap''
        in ebind (ecall (saveTexture p heightMap heightMapPath
                           (opt_outputFormat options) (opt_compressionLevel options))) (\<lambda>_.
           ethen (set_outputPath ''heightMap'' heightMapPath)
          (messages_push (''Saved heightmap to: '' @ path_basename p heightMapPath)))))
      else ereturn ())"

definition saveBaseColorWithAO ::
  "platform \<Rightarrow> ConversionOptions \<Rightarrow> string \<Rightarrow> string \<Rightarrow> TextureData \<Rightarrow> TextureData
     \<Rightarrow> unit action" where
  "saveBaseColorWithAO p options finalOutputDir baseTexturePath normalTextureData baseTextureData =
     (if opt_bakeAO options = Some True
      then
        ethen (messages_push ''Baking AO into base color...'')
       (let normalChannels = extractChannels normalTextureData;
            baseColorWithAO = bakeAOIntoBaseColor (chan_b normalChannels) baseTextureData;
            baseColorPath = outputPath p finalOutputDir baseTexturePath ''_withAO''
        in ebind (ecall (saveTexture p baseColorWithAO baseColorPath
                           (opt_outputFormat options) (opt_compressionLevel options))) (\<lambda>_.
           ethen (set_outputPath ''baseColorWithAO'' baseColorPath)
          (messages_push (''Saved base color with AO to: '' @ path_basename p baseColorPath))))
      else ereturn ())"

definition convertLabPBRToBedrock_try ::
  "platform \<Rightarrow> string \<Rightarrow> string \<Rightarrow> string \<Rightarrow> string option \<Rightarrow> ConversionOptions
     \<Rightarrow> ConversionResult action" where
  \<comment> \<open>the \<^verbatim>\<open>try\<close> block\<close>
  "convertLabPBRToBedrock_try p specularTexturePath normalTexturePath baseTexturePath outputDir
       options =
     (let finalOutputDir = string_or outputDir (path_dirname p specularTexturePath) in
      ethen (messages_push ''Loading textures...'')
     (ebind (ecall (loadTexture p specularTexturePath)) (\<lambda>specularTextureData.
      ebind (ecall (loadTexture p normalTexturePath)) (\<lambda>normalTextureData.
      ebind (ecall (loadTexture p baseTexturePath)) (\<lambda>baseTextureData.
      ethen (messages_push ''Extracting channels...'')
     (ethen (messages_push ''Creating MER texture...'')
     (ethen (saveMER p options finalOutputDir baseTexturePath specularTextureData
               normalTextureData)
     (ethen (saveBedrockNormal p options finalOutputDir baseTexturePath normalTextureData)
     (ethen (saveHeightMap p options finalOutputDir baseTexturePath normalTextureData)
     (ethen (saveBaseColorWithAO p options finalOutputDir baseTexturePath normalTextureData
               baseTextureData)
     (ethen (set_success True)
      return_result)))))))))))"

definition convertLabPBRToBedrock_result :: "string \<Rightarrow> ConversionResult" where
  \<comment> \<open>the result object that \<^verbatim>\<open>convertLabPBRToBedrock\<close> starts with\<close>
  "convertLabPBRToBedrock_result specularTexturePath =
     \<lparr>res_sourcePath = specularTexturePath, res_outputPaths = Map.empty, res_success = False,
      res_messages = [], res_conversionDirection = Some LabPBRToBedrock\<rparr>"

definition convertLabPBRToBedrock ::
  "platform \<Rightarrow> string \<Rightarrow> string \<Rightarrow> string \<Rightarrow> string option \<Rightarrow> ConversionOptions
     \<Rightarrow> error + ConversionResult" where
  "convertLabPBRToBedrock p specularTexturePath normalTexturePath baseTexturePath outputDir options =
     (let result = convertLabPBRToBedrock_result specularTexturePath
      in fst (try_catch
                (convertLabPBRToBedrock_try p specularTexturePath normalTexturePath
                   baseTexturePath outputDir options)
                catch_error result))"

definition copy_results :: "ConversionResult \<Rightarrow> unit action" where
  \<comment> \<open>the three assignments under \<^verbatim>\<open>// Copy results\<close>\<close>
  "copy_results conversionResult = (\<lambda>result.
     (Inr (), result\<lparr>res_success := res_success conversionResult,
                     res_messages := res_messages result @ res_messages conversionResult,
                     res_outputPaths := res_outputPaths conversionResult\<rparr>))"

definition convertAuto_try ::
  "platform \<Rightarrow> string \<Rightarrow> string option \<Rightarrow> ConversionOptions \<Rightarrow> DetectionResult
     \<Rightarrow> ConversionDirection \<Rightarrow> ConversionResult action" where
  \<comment> \<open>the \<^verbatim>\<open>try\<close> block\<close>
  "convertAuto_try p texturePath outputDir options detectionResult direction =
     (if direction = BedrockToLabPBR
      then
        ethen (messages_push ''Converting from Bedrock to LabPBR format...'')
       (let merTexturePath = string_or (det_merTexturePath detectionResult) texturePath;
            colorTexturePath = det_baseTexturePath detectionResult
        in if merTexturePath = [] \<or> \<not> string_truthy colorTexturePath
           then ethrow (Error
                  ''Could not find required textures for Bedrock to LabPBR conversion'')
           else
             ebind (ecall (convertTexture p merTexturePath colorTexturePath outputDir options))
               (\<lambda>conversionResult.
             ethen (copy_results conversionResult)
             return_result))
      else if direction = LabPBRToBedrock
      then
        ethen (messages_push ''Converting from LabPBR to Bedrock format...'')
       (let specularTexturePath =
              string_or (det_specularTexturePath detectionResult) texturePath;
            normalTexturePath = det_normalTexturePath detectionResult;
            baseTexturePath = det_baseTexturePath detectionResult
        in if specularTexturePath = [] \<or> \<not> string_truthy normalTexturePath
                \<or> \<not> string_truthy baseTexturePath
           then ethrow (Error
                  ''Could not find required textures for LabPBR to Bedrock conversion'')
           else
             ebind (ecall (convertLabPBRToBedrock p specularTexturePath
                             (string_or normalTexturePath []) (string_or baseTexturePath [])
                             outputDir options))
               (\<lambda>labPBRToBedrock.
             ethen (copy_results labPBRToBedrock)
             return_result))
      else ethrow (Error ''Could not determine conversion direction''))"

definition convertAuto_direction :: "DetectionResult \<Rightarrow> ConversionOptions \<Rightarrow> ConversionDirection" where
  \<comment> \<open>\<^verbatim>\<open>options.conversionDirection || ...\<close>: the direction \<open>BedrockToLabPBR\<close> is the
      number 0, which is falsy like \<^verbatim>\<open>undefined\<close>\<close>
  "convertAuto_direction detectionResult options =
     (let detected = (if det_format detectionResult = Bedrock then BedrockToLabPBR
                      else LabPBRToBedrock)
      in case opt_conversionDirection options of
           None \<Rightarrow> detected
         | Some d \<Rightarrow> if d = BedrockToLabPBR then detected else d)"

definition convertAuto_result ::
  "platform \<Rightarrow> string \<Rightarrow> DetectionResult \<Rightarrow> ConversionDirection \<Rightarrow> ConversionResult" where
  \<comment> \<open>the result object that \<^verbatim>\<open>convertAuto\<close> starts with\<close>
  "convertAuto_result p texturePath detectionResult direction =
     \<lparr>res_sourcePath = texturePath, res_outputPaths = Map.empty, res_success = False,
      res_messages =
        [''Detected format: '' @ TextureFormat_name (det_format detectionResult)
         @ '' (confidence: '' @ number_toFixed p (det_confidence detectionResult) 2 @ '')''],
      res_conversionDirection = Some direction\<rparr>"

definition convertAuto ::
  "platform \<Rightarrow> string \<Rightarrow> string option \<Rightarrow> ConversionOptions \<Rightarrow> error + ConversionResult" where
  "convertAuto p texturePath outputDir options =
     (let detectionResult = detectFormat p texturePath;
          direction = convertAuto_direction detectionResult options;
          result = convertAuto_result p texturePath detectionResult direction
      in fst (try_catch
                (convertAuto_try p texturePath outputDir options detectionResult direction)
                catch_error result))"

section \<open>Examples\<close>

text \<open>
  The 2 by 2 packed texture and the uniform mid-gray colour texture of the end-to-end
  example; a specular texture with no subsurface scattering and one with it; a single
  metallic pixel over a yellow colour.
\<close>

definition packedExample :: TextureData where
  "packedExample = \<lparr>tex_width = 2, tex_height = 2,
     tex_data = [0, 0, 0,  255, 0, 64,  0, 128, 128,  255, 128, 255], tex_channels = 3\<rparr>"

definition grayExample :: TextureData where
  "grayExample = \<lparr>tex_width = 2, tex_height = 2,
     tex_data = [128, 128, 128,  128, 128, 128,  128, 128, 128,  128, 128, 128], tex_channels = 3\<rparr>"

definition smoothSpecular :: TextureData where
  "smoothSpecular = \<lparr>tex_width = 2, tex_height = 2,
     tex_data = [255, 0, 0, 0,  255, 0, 0, 0,  255, 0, 0, 0,  255, 0, 0, 0], tex_channels = 4\<rparr>"

definition subsurfaceSpecular :: TextureData where
  "subsurfaceSpecular = \<lparr>tex_width = 2, tex_height = 2,
     tex_data = [255, 0, 0, 0,  255, 0, 70, 0,  255, 0, 0, 0,  255, 0, 0, 0], tex_channels = 4\<rparr>"

definition goldPixel :: "MERChannels \<times> ChannelData" where
  "goldPixel =
     (\<lparr>mer_metallic = [255], mer_emissive = [0], mer_roughness = [0], mer_subsurface = None\<rparr>,
      \<lparr>chan_r = [255], chan_g = [200], chan_b = [50], chan_a = None,
       chan_width = 1, chan_height = 1\<rparr>)"

text \<open>
  A platform for the examples. Its paths are relative POSIX paths of plain names in lower
  case, separated by single slashes, with no \<open>.\<close> or \<open>..\<close> among the names; on these
  the functions below are those of Node's \<^verbatim>\<open>path\<close> module. The listed files exist,
  and none of them can be decoded.
\<close>

definition posix_basename :: "string \<Rightarrow> string" where
  \<comment> \<open>\<^verbatim>\<open>path.basename(f)\<close>: what follows the last slash\<close>
  "posix_basename f = rev (takeWhile (\<lambda>c. c \<noteq> CHR ''/'') (rev f))"

definition posix_dirname :: "string \<Rightarrow> string" where
  \<comment> \<open>\<^verbatim>\<open>path.dirname(f)\<close>: what precedes the last slash, \<open>.\<close> without a slash\<close>
  "posix_dirname f =
     (let d = rev (drop 1 (dropWhile (\<lambda>c. c \<noteq> CHR ''/'') (rev f)))
      in if d = [] then ''.'' else d)"

definition posix_extname :: "string \<Rightarrow> string" where
  \<comment> \<open>\<^verbatim>\<open>path.extname(f)\<close>: from the last dot of the name; empty when the name has
      no dot or starts with its only dot\<close>
  "posix_extname f =
     (let b = posix_basename f;
          e = rev (takeWhile (\<lambda>c. c \<noteq> CHR ''.'') (rev b))
      in if CHR ''.'' \<notin> set b \<or> length e + 1 = length b then [] else CHR ''.'' # e)"

definition posix_basename_ext :: "string \<Rightarrow> string \<Rightarrow> string" where
  \<comment> \<open>\<^verbatim>\<open>path.basename(f, ext)\<close>: the name without the suffix \<open>ext\<close>, unless the name
      is the suffix\<close>
  "posix_basename_ext f ext =
     (let b = posix_basename f
      in if ext \<noteq> [] \<and> f = ext then []
         else if ext \<noteq> [] \<and> endsWith b ext \<and> b \<noteq> ext then slice_end b (length ext)
         else b)"

definition posix_join :: "string \<Rightarrow> string \<Rightarrow> string" where
  \<comment> \<open>\<^verbatim>\<open>path.join(d, f)\<close> for a name \<open>f\<close> that is not empty\<close>
  "posix_join d f = (if d = [] \<or> d = ''.'' then f else d @ ''/'' @ f)"

definition fixed2 :: "real \<Rightarrow> string" where
  \<comment> \<open>\<^verbatim>\<open>x.toFixed(2)\<close> for \<open>0 \<le> x < 10\<close>\<close>
  "fixed2 x =
     (let k = nat \<lfloor>x * 100 + 1 / 2\<rfloor>
      in [char_of (48 + k div 100), CHR ''.'', char_of (48 + k div 10 mod 10),
          char_of (48 + k mod 10)])"

definition examplePlatform :: "string list \<Rightarrow> platform" where
  "examplePlatform files =
     \<lparr>fs_existsSync = (\<lambda>f. f \<in> set files),
      fs_mkdirSync = (\<lambda>d. Inr ()),
      path_dirname = posix_dirname,
      path_basename = posix_basename,
      path_basename_ext = posix_basename_ext,
      path_extname = posix_extname,
      path_join = posix_join,
      string_toLowerCase = (\<lambda>s. s),
      number_toFixed = (\<lambda>x n. fixed2 x),
      sharp_metadata = (\<lambda>f. Inl (Error ''Input file contains unsupported image format'')),
      sharp_raw = (\<lambda>f. Inl (Error ''Input file contains unsupported image format'')),
      sharp_new = (\<lambda>t. Inr ()),
      sharp_toFile = (\<lambda>t format q f. Inr ())\<rparr>"

text \<open>
  The same platform with files that can be decoded: each listed file exists and holds the
  texture given with it.
\<close>

definition texturePlatform :: "(string \<times> TextureData) list \<Rightarrow> platform" where
  "texturePlatform textures =
     (examplePlatform (map fst textures))
       \<lparr>sharp_metadata :=
          (\<lambda>f. case map_of textures f of
                 Some t \<Rightarrow> Inr (tex_width t, tex_height t)
               | None \<Rightarrow> Inl (Error ''Input file is missing'')),
        sharp_raw :=
          (\<lambda>f. case map_of textures f of
                 Some t \<Rightarrow> Inr (tex_data t, tex_channels t)
               | None \<Rightarrow> Inl (Error ''Input file is missing''))\<rparr>"

definition exampleTextures :: "(string \<times> TextureData) list" where
  \<comment> \<open>two specular textures, a normal texture and a base texture\<close>
  "exampleTextures =
     [(''foo_s.png'', smoothSpecular), (''bar_s.png'', subsurfaceSpecular),
      (''foo_n.png'', grayExample), (''foo.png'', grayExample)]"

definition noOptions :: ConversionOptions where
  "noOptions = \<lparr>opt_outputFormat = None, opt_compressionLevel = None,
                 opt_conversionDirection = None, opt_bakeAO = None,
                 opt_extractHeightMap = None\<rparr>"

section \<open>Auxiliary definitions for the proofs\<close>

definition pixel_bytes :: "Buffer \<Rightarrow> Buffer \<Rightarrow> Buffer \<Rightarrow> Buffer option \<Rightarrow> nat \<Rightarrow> byte list" where
  \<comment> \<open>the bytes that \<^verbatim>\<open>combineChannels\<close> writes for pixel \<open>i\<close>\<close>
  "pixel_bytes r g b a i =
     [ToUint8 (buf_get r i), ToUint8 (buf_get g i), ToUint8 (buf_get b i)]
     @ (case a of Some a' \<Rightarrow> [ToUint8 (buf_get a' i)] | None \<Rightarrow> [])"

definition specular_f0 :: "MERChannels \<Rightarrow> ChannelData \<Rightarrow> nat \<Rightarrow> number" where
  \<comment> \<open>the reflectance that \<^verbatim>\<open>createSpecularTexture\<close> stores for pixel \<open>i\<close>\<close>
  "specular_f0 mc cc i =
     (if isMetallic (buf_get (mer_metallic mc) i)
      then getPredefinedMetal (buf_get (chan_r cc) i) (buf_get (chan_g cc) i) (buf_get (chan_b cc) i)
      else metallicToF0 (buf_get (mer_metallic mc) i))"

definition specular_porosity :: "MERChannels \<Rightarrow> nat \<Rightarrow> number" where
  \<comment> \<open>the porosity or subsurface value that it stores for pixel \<open>i\<close>\<close>
  "specular_porosity mc i =
     (case mer_subsurface mc of
        Some sub \<Rightarrow> if js_gt (buf_get sub i) 0 then convertSubsurface (buf_get sub i)
                    else convertPorosity (Some (1 / 10))
      | None \<Rightarrow> convertPorosity (Some (1 / 10)))"

definition mer_metallic_of :: "number \<Rightarrow> number" where
  \<comment> \<open>the metallic value that \<^verbatim>\<open>createMERTexture\<close> stores for a reflectance\<close>
  "mer_metallic_of f0 =
     (if js_ge f0 230 then Some 255
      else if js_ge f0 200 then Some 255
      else if js_ge f0 150 then Some 230
      else if js_ge f0 100 then Some 180
      else if js_ge f0 50 then Some 100
      else Some 0)"

definition mer_subsurface_of :: "number \<Rightarrow> number" where
  \<comment> \<open>the alpha value that it stores for a blue value of the specular texture\<close>
  "mer_subsurface_of b = (if js_ge b 65 then b else Some 255)"

definition keeps_unsuccessful :: "'a action \<Rightarrow> bool" where
  \<comment> \<open>a statement that leaves an unsuccessful result unsuccessful, however it ends\<close>
  "keeps_unsuccessful m = (\<forall>r x r'. \<not> res_success r \<longrightarrow> m r = (x, r') \<longrightarrow> \<not> res_success r')"

definition fault_unsuccessful :: "'a action \<Rightarrow> bool" where
  \<comment> \<open>a statement that leaves an unsuccessful result unsuccessful when it throws\<close>
  "fault_unsuccessful m = (\<forall>r e r'. \<not> res_success r \<longrightarrow> m r = (Inl e, r') \<longrightarrow> \<not> res_success r')"

definition returns_success :: "ConversionResult action \<Rightarrow> bool" where
  \<comment> \<open>a statement that, when it returns, returns the result object, marked successful\<close>
  "returns_success m = (\<forall>r x r'. m r = (Inr x, r') \<longrightarrow> x = r' \<and> res_success r')"

definition keeps_mer :: "'a action \<Rightarrow> bool" where
  \<comment> \<open>a statement that leaves the recorded path of the MER texture as it is\<close>
  "keeps_mer m = (\<forall>r x r'. m r = (x, r') \<longrightarrow> res_outputPaths r' ''mer'' = res_outputPaths r ''mer'')"

definition outcome_ok :: "ConversionResult \<Rightarrow> bool" where
  \<comment> \<open>a result that is successful or ends with the message of an error\<close>
  "outcome_ok res = (res_success res
          \<or> (res_messages res \<noteq> []
              \<and> (\<exists>e. last (res_messages res) = ''Error: '' @ error_message e)))"

definition returns_outcome :: "ConversionResult action \<Rightarrow> bool" where
  "returns_outcome m = (\<forall>r x r'. m r = (Inr x, r') \<longrightarrow> x = r' \<and> outcome_ok r')"

section \<open>Properties of the transfer functions\<close>

lemma unat_byte_le: "real (unat (w :: byte)) \<le> 255"
proof -
  have "unat w < 2 ^ 8" using unsigned_less [of w] by simp
  hence "unat w \<le> 255" by simp
  hence "real (unat w) \<le> real 255" by (rule of_nat_mono)
  thus ?thesis by simp
qed

text \<open>
  The smoothness of a roughness \<open>x\<close> is the integer \<open>k\<close> with
  \<open>k - 1/2 \<le> 255 - sqrt (255 x) < k + 1/2\<close>; squaring gives a test on integers.
\<close>

lemma roughnessToSmoothness_eval:
  fixes x :: real and k :: int
  assumes x: "0 \<le> x" and k: "0 \<le> k" "k \<le> 255"
    and up: "1020 * x \<le> (511 - 2 * of_int k) ^ 2"
    and lo: "k = 255 \<or> (509 - 2 * of_int k) ^ 2 < 1020 * x"
  shows "roughnessToSmoothness (Some x) = Some (of_int k)"
proof -
  define t where "t = sqrt (x / 255) * 255"
  have t0: "0 \<le> t" using x by (simp add: t_def)
  have "t ^ 2 = (sqrt (x / 255)) ^ 2 * 255 ^ 2" by (simp add: t_def power_mult_distrib)
  also have "\<dots> = x / 255 * 255 ^ 2" using x by simp
  finally have t2: "(2 * t) ^ 2 = 1020 * x" by (simp add: power2_eq_square)
  have kr: "(0::real) \<le> 511 - 2 * of_int k" using k by linarith
  have "(2 * t) ^ 2 \<le> (511 - 2 * of_int k) ^ 2" using up t2 by simp
  hence le: "2 * t \<le> 511 - 2 * of_int k" using kr by (rule power2_le_imp_le)
  have gt: "509 - 2 * of_int k < 2 * t"
  proof (cases "k = 255")
    case True
    thus ?thesis using t0 by simp
  next
    case False
    hence "(509 - 2 * of_int k) ^ 2 < (2 * t) ^ 2" using lo t2 by simp
    moreover have "0 \<le> 2 * t" using t0 by simp
    ultimately show ?thesis by (rule power2_less_imp_less)
  qed
  have "real_of_int k \<le> 255 - t + 1 / 2" "255 - t + 1 / 2 < real_of_int k + 1"
    using le gt by linarith+
  hence "\<lfloor>255 - t + 1 / 2\<rfloor> = k"
    by (subst floor_eq_iff) simp
  moreover have "(1 - sqrt (x / 255)) * 255 = 255 - t"
    by (simp add: t_def algebra_simps)
  ultimately have "Math_round ((1 - sqrt (x / 255)) * 255) = of_int k"
    by (simp add: Math_round_def)
  thus ?thesis
    using x k by (simp add: roughnessToSmoothness_def Let_def)
qed

lemma floor_real_unat: "\<lfloor>real (unat (w::byte))\<rfloor> = int (unat w)"
  by (rule floor_of_nat)

lemma ToUint8_byte_number: "ToUint8 (byte_number w) = w"
proof -
  have "(word_of_int (int (unat w)) :: byte) = w" by simp
  moreover have "0 \<le> real (unat w)" by (rule of_nat_0_le_iff)
  ultimately show ?thesis
    unfolding ToUint8_def byte_number_def option.case floor_real_unat by presburger
qed

lemma ToUint8_int: "0 \<le> k \<Longrightarrow> ToUint8 (Some (of_int k)) = word_of_int k"
  by (simp add: ToUint8_def)

lemma ToUint8_numeral: "ToUint8 (Some (numeral n)) = numeral n"
  using ToUint8_int [of "numeral n"] by simp

lemma ToUint8_zero: "ToUint8 (Some 0) = 0"
  by (simp add: ToUint8_def)

lemma ToUint8_buf_get: "i < length buf \<Longrightarrow> ToUint8 (buf_get buf i) = buf ! i"
  using ToUint8_byte_number [of "buf ! i"] by (simp add: buf_get_def byte_number_def)

section \<open>Ranges of the transfer functions\<close>

lemma byte_number_bounds: "\<exists>x. byte_number w = Some x \<and> 0 \<le> x \<and> x \<le> 255 \<and> (x > 200 \<longleftrightarrow> unat w > 200) \<and> (x = 0 \<longleftrightarrow> w = 0)"
proof -
  have "real (unat w) > 200 \<longleftrightarrow> unat w > 200"
    using of_nat_less_iff [of 200 "unat w", where 'a = real] by simp
  moreover have "real (unat w) = 0 \<longleftrightarrow> w = 0"
    by (simp add: unsigned_eq_0_iff)
  moreover have "0 \<le> real (unat w)" by (rule of_nat_0_le_iff)
  ultimately show ?thesis
    unfolding byte_number_def using unat_byte_le [of w] by blast
qed

lemma metallicToF0_metal:
  assumes "200 < m"
  shows "\<exists>k::int. metallicToF0 (Some m) = Some (of_int k) \<and> 230 \<le> k \<and> k \<le> 255"
proof -
  define k where "k = min 255 (230 + \<lfloor>(m - 200) / 5\<rfloor>)"
  have "0 \<le> \<lfloor>(m - 200) / 5\<rfloor>" using assms by simp
  hence "230 \<le> k" "k \<le> 255" by (simp_all add: k_def)
  moreover have "metallicToF0 (Some m) = Some (of_int k)"
    using assms by (simp add: metallicToF0_def Math_floor_def k_def)
  ultimately show ?thesis by blast
qed

lemma metallicToF0_dielectric:
  assumes "0 \<le> m" "m \<le> 200"
  shows "\<exists>k::int. metallicToF0 (Some m) = Some (of_int k) \<and> 4 \<le> k \<and> k \<le> 229"
proof -
  define k where "k = \<lfloor>4 + (m / 255) * (229 - 4) + 1 / 2\<rfloor>"
  have "4 \<le> k" unfolding k_def using assms by (subst le_floor_iff) simp
  moreover have "k \<le> 229" unfolding k_def using assms by (subst floor_le_iff) simp
  moreover have "metallicToF0 (Some m) = Some (of_int k)"
    using assms by (simp add: metallicToF0_def Math_round_def k_def Let_def)
  ultimately show ?thesis by blast
qed

text \<open>
  Claim C5. For every byte \<open>m\<close>: above the threshold 200, \<open>metallicToF0\<close> gives an
  integer of the predefined-metal range 230..255; up to 200, it gives an integer of the
  dielectric range 4..229.
\<close>

theorem metallicToF0_ranges:
  fixes m :: byte
  shows "(unat m > 200 \<longrightarrow>
           (\<exists>k::int. metallicToF0 (byte_number m) = Some (of_int k) \<and> 230 \<le> k \<and> k \<le> 255))
       \<and> (unat m \<le> 200 \<longrightarrow>
           (\<exists>k::int. metallicToF0 (byte_number m) = Some (of_int k) \<and> 4 \<le> k \<and> k \<le> 229))"
proof -
  obtain x where x: "byte_number m = Some x" "0 \<le> x" "x \<le> 255" "x > 200 \<longleftrightarrow> unat m > 200"
    using byte_number_bounds [of m] by blast
  show ?thesis
  proof (cases "unat m > 200")
    case True
    thus ?thesis using x metallicToF0_metal [of x] by simp
  next
    case False
    hence "x \<le> 200" using x by simp
    thus ?thesis using False x metallicToF0_dielectric [of x] by simp
  qed
qed

theorem metallicToF0_ranges_witness:
  "unat (255 :: byte) > 200 \<and> unat (0 :: byte) \<le> 200
   \<and> (\<exists>k::int. metallicToF0 (byte_number 255) = Some (of_int k) \<and> 230 \<le> k \<and> k \<le> 255)
   \<and> (\<exists>k::int. metallicToF0 (byte_number 0) = Some (of_int k) \<and> 4 \<le> k \<and> k \<le> 229)"
  using metallicToF0_ranges [of 255] metallicToF0_ranges [of 0] by simp

lemma convertSubsurface_range:
  assumes "0 < s" "s \<le> 255"
  shows "\<exists>k::int. convertSubsurface (Some s) = Some (of_int k) \<and> 65 \<le> k \<and> k \<le> 255"
proof -
  define k where "k = 65 + \<lfloor>(s / 255) * (255 - 65)\<rfloor>"
  have "0 \<le> \<lfloor>(s / 255) * (255 - 65)\<rfloor>" using assms by simp
  moreover have "\<lfloor>(s / 255) * (255 - 65)\<rfloor> \<le> 190" using assms by (subst floor_le_iff) simp
  ultimately have "65 \<le> k" "k \<le> 255" by (simp_all add: k_def)
  moreover have "convertSubsurface (Some s) = Some (of_int k)"
    using assms by (simp add: convertSubsurface_def Math_floor_def k_def)
  ultimately show ?thesis by blast
qed

lemma convertPorosity_range:
  assumes "0 \<le> p" "p \<le> 1"
  shows "\<exists>k::int. convertPorosity (Some p) = Some (of_int k) \<and> 0 \<le> k \<and> k \<le> 64"
proof -
  define k where "k = \<lfloor>p * 64 + 1 / 2\<rfloor>"
  have "0 \<le> k" unfolding k_def using assms by (subst le_floor_iff) simp
  moreover have "k \<le> 64" unfolding k_def using assms by (subst floor_le_iff) simp
  moreover have "convertPorosity (Some p) = Some (of_int k)"
    by (simp add: convertPorosity_def Math_round_def k_def)
  ultimately show ?thesis by blast
qed

text \<open>
  Claim C6. \<open>convertSubsurface\<close> maps 0 to 0 and every other byte into 65..255;
  \<open>convertPorosity\<close> maps every porosity between 0 and 1 into 0..64; so the two never
  give the same value when the subsurface byte is not 0.
\<close>

theorem subsurface_porosity_ranges:
  fixes s :: byte and p :: real
  shows "convertSubsurface (byte_number 0) = Some 0
       \<and> (s \<noteq> 0 \<longrightarrow>
            (\<exists>k::int. convertSubsurface (byte_number s) = Some (of_int k) \<and> 65 \<le> k \<and> k \<le> 255))
       \<and> (0 \<le> p \<and> p \<le> 1 \<longrightarrow>
            (\<exists>k::int. convertPorosity (Some p) = Some (of_int k) \<and> 0 \<le> k \<and> k \<le> 64))
       \<and> (s \<noteq> 0 \<and> 0 \<le> p \<and> p \<le> 1 \<longrightarrow>
            convertSubsurface (byte_number s) \<noteq> convertPorosity (Some p))"
proof -
  obtain x where x: "byte_number s = Some x" "0 \<le> x" "x \<le> 255" "x = 0 \<longleftrightarrow> s = 0"
    using byte_number_bounds [of s] by blast
  have zero: "convertSubsurface (byte_number 0) = Some 0"
    by (simp add: convertSubsurface_def byte_number_def)
  have sub: "\<exists>k::int. convertSubsurface (byte_number s) = Some (of_int k) \<and> 65 \<le> k \<and> k \<le> 255"
    if "s \<noteq> 0"
    using that x convertSubsurface_range [of x] by simp
  have por: "\<exists>k::int. convertPorosity (Some p) = Some (of_int k) \<and> 0 \<le> k \<and> k \<le> 64"
    if "0 \<le> p \<and> p \<le> 1"
    using that convertPorosity_range [of p] by simp
  have disj: "convertSubsurface (byte_number s) \<noteq> convertPorosity (Some p)"
    if h: "s \<noteq> 0 \<and> 0 \<le> p \<and> p \<le> 1"
  proof -
    obtain k where k: "convertSubsurface (byte_number s) = Some (of_int k)" "65 \<le> k"
      using sub h by blast
    obtain j where j: "convertPorosity (Some p) = Some (of_int j)" "j \<le> 64"
      using por h by blast
    have "k \<noteq> j" using k j by linarith
    thus ?thesis using k j by simp
  qed
  show ?thesis using zero sub por disj by blast
qed

theorem subsurface_porosity_ranges_witness:
  "(128 :: byte) \<noteq> 0 \<and> (0::real) \<le> 1 / 10 \<and> (1 / 10 :: real) \<le> 1
   \<and> (\<exists>k::int. convertSubsurface (byte_number 128) = Some (of_int k) \<and> 65 \<le> k \<and> k \<le> 255)
   \<and> (\<exists>k::int. convertPorosity (Some (1 / 10)) = Some (of_int k) \<and> 0 \<le> k \<and> k \<le> 64)
   \<and> convertSubsurface (byte_number 128) \<noteq> convertPorosity (Some (1 / 10))"
  using subsurface_porosity_ranges [of 128 "1 / 10"] by simp

text \<open>
  Claim C7. Converting a roughness to a smoothness and back is not the identity on the
  bytes: some byte does not come back (229 becomes the smoothness 13, which becomes 230).
\<close>

theorem roughness_round_trip_lossy:
  "\<exists>r :: byte. smoothnessToRoughness (roughnessToSmoothness (byte_number r)) \<noteq> byte_number r"
proof -
  have "roughnessToSmoothness (Some 229) = Some 13"
    using roughnessToSmoothness_eval [of 229 13] by simp
  moreover have "smoothnessToRoughness (Some 13) = Some 230"
    by (simp add: smoothnessToRoughness_def Math_round_def Let_def power2_eq_square)
  moreover have "byte_number 229 = Some 229" by (simp add: byte_number_def)
  ultimately have "smoothnessToRoughness (roughnessToSmoothness (byte_number 229)) \<noteq> byte_number 229"
    by simp
  thus ?thesis by blast
qed

section \<open>The loops over the pixels in closed form\<close>

lemma fold_quad:
  assumes "\<And>i a b c d. step i (a, b, c, d) = (F i a, G i b, H i c, K i d)"
  shows "fold step xs (a, b, c, d) = (fold F xs a, fold G xs b, fold H xs c, fold K xs d)"
  by (induction xs arbitrary: a b c d) (simp_all add: assms)

lemma fold_option:
  "fold (\<lambda>i a. case a of Some a' \<Rightarrow> Some (h i a') | None \<Rightarrow> None) xs (Some b) = Some (fold h xs b)"
  by (induction xs arbitrary: b) simp_all

lemma fold_id: "fold (\<lambda>i a. a) xs a = a"
  by (induction xs) simp_all

lemma fold_buf_set:
  "n \<le> length buf \<Longrightarrow>
   fold (\<lambda>i buf. buf_set buf i (f i)) [0..<n] buf = map (\<lambda>i. ToUint8 (f i)) [0..<n] @ drop n buf"
proof (induction n)
  case 0
  show ?case by simp
next
  case (Suc n)
  hence n: "n < length buf" by simp
  have "fold (\<lambda>i buf. buf_set buf i (f i)) [0..<Suc n] buf
        = (map (\<lambda>i. ToUint8 (f i)) [0..<n] @ drop n buf)[n := ToUint8 (f n)]"
    using Suc by (simp add: buf_set_def)
  also have "\<dots> = map (\<lambda>i. ToUint8 (f i)) [0..<n] @ (drop n buf)[0 := ToUint8 (f n)]"
    by (simp add: list_update_append)
  also have "drop n buf = buf ! n # drop (Suc n) buf"
    using n by (simp add: Cons_nth_drop_Suc)
  finally show ?case by simp
qed

lemma fold_buf_set_alloc:
  "fold (\<lambda>i buf. buf_set buf i (f i)) [0..<n] (Buffer_alloc n) = map (\<lambda>i. ToUint8 (f i)) [0..<n]"
  using fold_buf_set [of n "Buffer_alloc n" f] by (simp add: Buffer_alloc_def)

lemma extractChannels_eq:
  "extractChannels t =
     \<lparr>chan_r = map (\<lambda>i. ToUint8 (buf_get (tex_data t) (i * tex_channels t))) [0..<tex_width t * tex_height t],
      chan_g = map (\<lambda>i. ToUint8 (buf_get (tex_data t) (i * tex_channels t + 1))) [0..<tex_width t * tex_height t],
      chan_b = map (\<lambda>i. ToUint8 (buf_get (tex_data t) (i * tex_channels t + 2))) [0..<tex_width t * tex_height t],
      chan_a = (if tex_channels t = 4
                then Some (map (\<lambda>i. ToUint8 (buf_get (tex_data t) (i * tex_channels t + 3))) [0..<tex_width t * tex_height t])
                else None),
      chan_width = tex_width t, chan_height = tex_height t\<rparr>"
proof -
  define pc where "pc = tex_width t * tex_height t"
  define ch where "ch = tex_channels t"
  define d where "d = tex_data t"
  let ?F = "\<lambda>i r. buf_set r i (buf_get d (i * ch))"
  let ?G = "\<lambda>i g. buf_set g i (buf_get d (i * ch + 1))"
  let ?H = "\<lambda>i b. buf_set b i (buf_get d (i * ch + 2))"
  let ?K = "\<lambda>i a. if ch = 4
      then (case a of Some a' \<Rightarrow> Some (buf_set a' i (buf_get d (i * ch + 3))) | None \<Rightarrow> None)
      else a"
  have step: "\<And>i a b c e. extractChannels_step d ch i (a, b, c, e) = (?F i a, ?G i b, ?H i c, ?K i e)"
    by (simp add: extractChannels_step_def Let_def)
  have q: "fold (extractChannels_step d ch) [0..<pc] (a, b, c, e)
         = (fold ?F [0..<pc] a, fold ?G [0..<pc] b, fold ?H [0..<pc] c, fold ?K [0..<pc] e)" for a b c e
    using step by (rule fold_quad)
  show ?thesis
    unfolding extractChannels_def Let_def pc_def [symmetric] ch_def [symmetric] d_def [symmetric] q
    by (simp add: fold_buf_set_alloc fold_option fold_id)
qed

lemma update3:
  "3 \<le> length D \<Longrightarrow> D[0 := x, Suc 0 := y, 2 := z] = x # y # z # drop 3 D"
  by (auto simp: numeral_3_eq_3 numeral_2_eq_2 Suc_le_length_iff)

lemma update4:
  "4 \<le> length D \<Longrightarrow> D[0 := x, Suc 0 := y, 2 := z, 3 := u] = x # y # z # u # drop 4 D"
  by (auto simp: numeral_3_eq_3 numeral_2_eq_2 eval_nat_numeral Suc_le_length_iff)

lemma length_pixel_bytes: "length (pixel_bytes r g b a i) = (if a = None then 3 else 4)"
  by (simp add: pixel_bytes_def split: option.split)

lemma length_concat_pixels:
  "length (concat (map (pixel_bytes r g b a) [0..<n])) = n * (if a = None then 3 else 4)"
  by (induction n) (simp_all add: length_pixel_bytes)

lemma combine_step_append:
  assumes P: "length P = n * c" and c: "c = (if a = None then 3 else 4)" and D: "c \<le> length D"
  shows "combineChannels_step r g b a c n (P @ D) = P @ pixel_bytes r g b a n @ drop c D"
proof (cases a)
  case None
  hence c3: "c = 3" using c by simp
  have "combineChannels_step r g b a c n (P @ D)
        = P @ D[0 := ToUint8 (buf_get r n), Suc 0 := ToUint8 (buf_get g n), 2 := ToUint8 (buf_get b n)]"
    using None P by (simp add: combineChannels_step_def Let_def buf_set_def list_update_append c3)
  thus ?thesis using D None c3 by (simp add: update3 pixel_bytes_def)
next
  case (Some a')
  hence c4: "c = 4" using c by simp
  have "combineChannels_step r g b a c n (P @ D)
        = P @ D[0 := ToUint8 (buf_get r n), Suc 0 := ToUint8 (buf_get g n), 2 := ToUint8 (buf_get b n),
                3 := ToUint8 (buf_get a' n)]"
    using Some P by (simp add: combineChannels_step_def Let_def buf_set_def list_update_append c4)
  thus ?thesis using D Some c4 by (simp add: update4 pixel_bytes_def)
qed

lemma fold_combine:
  assumes c: "c = (if a = None then 3 else 4)"
  shows "n * c \<le> length buf \<Longrightarrow>
         fold (combineChannels_step r g b a c) [0..<n] buf
         = concat (map (pixel_bytes r g b a) [0..<n]) @ drop (n * c) buf"
proof (induction n)
  case 0
  show ?case by simp
next
  case (Suc n)
  let ?P = "concat (map (pixel_bytes r g b a) [0..<n])"
  have len: "length ?P = n * c" using c by (simp add: length_concat_pixels)
  have D: "c \<le> length (drop (n * c) buf)" using Suc.prems by simp
  have "fold (combineChannels_step r g b a c) [0..<Suc n] buf
        = combineChannels_step r g b a c n (?P @ drop (n * c) buf)"
    using Suc by simp
  also have "\<dots> = ?P @ pixel_bytes r g b a n @ drop c (drop (n * c) buf)"
    using len c D by (rule combine_step_append)
  finally show ?case by (simp add: add.commute)
qed

lemma combineChannels_eq:
  "combineChannels cs =
     \<lparr>tex_width = chan_width cs, tex_height = chan_height cs,
      tex_data = concat (map (pixel_bytes (chan_r cs) (chan_g cs) (chan_b cs) (chan_a cs))
                   [0..<chan_width cs * chan_height cs]),
      tex_channels = (if chan_a cs = None then 3 else 4)\<rparr>"
proof -
  define c :: nat where "c = (if chan_a cs = None then 3 else 4)"
  define pc where "pc = chan_width cs * chan_height cs"
  have "fold (combineChannels_step (chan_r cs) (chan_g cs) (chan_b cs) (chan_a cs) c) [0..<pc]
          (Buffer_alloc (pc * c))
        = concat (map (pixel_bytes (chan_r cs) (chan_g cs) (chan_b cs) (chan_a cs)) [0..<pc])"
    using fold_combine [of c "chan_a cs" pc "Buffer_alloc (pc * c)" "chan_r cs" "chan_g cs" "chan_b cs"]
    by (simp add: c_def Buffer_alloc_def)
  thus ?thesis
    by (cases "chan_a cs") (simp_all add: combineChannels_def Let_def c_def pc_def)
qed

lemma nth_concat_uniform:
  "\<forall>x\<in>set xss. length x = c \<Longrightarrow> i < length xss \<Longrightarrow> j < c \<Longrightarrow>
   concat xss ! (i * c + j) = xss ! i ! j"
proof (induction xss arbitrary: i)
  case Nil
  thus ?case by simp
next
  case (Cons x xss)
  show ?case
  proof (cases i)
    case 0
    thus ?thesis using Cons.prems by (simp add: nth_append)
  next
    case (Suc k)
    have "concat (x # xss) ! (i * c + j) = concat xss ! (k * c + j)"
      using Cons.prems Suc by (simp add: nth_append)
    thus ?thesis using Cons Suc by simp
  qed
qed

lemma pixel_bytes_maps:
  "i < n \<Longrightarrow>
   pixel_bytes (map fr [0..<n]) (map fg [0..<n]) (map fb [0..<n]) (Some (map fa [0..<n])) i
   = [fr i, fg i, fb i, fa i]"
  by (simp add: pixel_bytes_def ToUint8_buf_get)

lemma combineChannels_maps:
  "tex_data (combineChannels
     \<lparr>chan_r = map fr [0..<w * h], chan_g = map fg [0..<w * h], chan_b = map fb [0..<w * h],
      chan_a = Some (map fa [0..<w * h]), chan_width = w, chan_height = h\<rparr>)
   = concat (map (\<lambda>i. [fr i, fg i, fb i, fa i]) [0..<w * h])"
proof -
  have "map (pixel_bytes (map fr [0..<w * h]) (map fg [0..<w * h]) (map fb [0..<w * h])
               (Some (map fa [0..<w * h]))) [0..<w * h]
        = map (\<lambda>i. [fr i, fg i, fb i, fa i]) [0..<w * h]"
    by (intro map_cong) (simp_all add: pixel_bytes_maps)
  hence eq: "concat (map (pixel_bytes (map fr [0..<w * h]) (map fg [0..<w * h]) (map fb [0..<w * h])
               (Some (map fa [0..<w * h]))) [0..<w * h])
        = concat (map (\<lambda>i. [fr i, fg i, fb i, fa i]) [0..<w * h])"
    by (rule arg_cong)
  show ?thesis by (simp add: combineChannels_eq eq)
qed

lemma createSpecularTexture_data:
  "tex_data (createSpecularTexture mc cc w h) =
     concat (map (\<lambda>i. [ToUint8 (roughnessToSmoothness (buf_get (mer_roughness mc) i)),
                        ToUint8 (specular_f0 mc cc i),
                        ToUint8 (specular_porosity mc i),
                        ToUint8 (convertEmissive (buf_get (mer_emissive mc) i))]) [0..<w * h])"
proof -
  let ?F = "\<lambda>i s. buf_set s i (roughnessToSmoothness (buf_get (mer_roughness mc) i))"
  let ?G = "\<lambda>i f. buf_set f i (specular_f0 mc cc i)"
  let ?H = "\<lambda>i p. buf_set p i (specular_porosity mc i)"
  let ?K = "\<lambda>i e. buf_set e i (convertEmissive (buf_get (mer_emissive mc) i))"
  have step: "\<And>i a b c e. createSpecularTexture_step mc cc i (a, b, c, e) = (?F i a, ?G i b, ?H i c, ?K i e)"
    by (simp add: createSpecularTexture_step_def Let_def specular_f0_def specular_porosity_def
          split: option.split)
  have q: "fold (createSpecularTexture_step mc cc) [0..<w * h] (a, b, c, e)
         = (fold ?F [0..<w * h] a, fold ?G [0..<w * h] b, fold ?H [0..<w * h] c, fold ?K [0..<w * h] e)"
    for a b c e
    using step by (rule fold_quad)
  show ?thesis
    unfolding createSpecularTexture_def Let_def q
    by (simp add: fold_buf_set_alloc combineChannels_maps)
qed

lemma createMERTexture_data:
  "tex_data (createMERTexture sc nc w h) =
     concat (map (\<lambda>i. [ToUint8 (mer_metallic_of (buf_get (chan_g sc) i)),
                        0,
                        ToUint8 (case buf_get (chan_r sc) i of None \<Rightarrow> None | Some s \<Rightarrow> Some (255 - s)),
                        ToUint8 (mer_subsurface_of (buf_get (chan_b sc) i))]) [0..<w * h])"
proof -
  let ?F = "\<lambda>i m. buf_set m i (mer_metallic_of (buf_get (chan_g sc) i))"
  let ?G = "\<lambda>i e. buf_set e i (Some 0)"
  let ?H = "\<lambda>i r. buf_set r i (case buf_get (chan_r sc) i of None \<Rightarrow> None | Some s \<Rightarrow> Some (255 - s))"
  let ?K = "\<lambda>i s. buf_set s i (mer_subsurface_of (buf_get (chan_b sc) i))"
  have step: "\<And>i a b c e. createMERTexture_step sc i (a, b, c, e) = (?F i a, ?G i b, ?H i c, ?K i e)"
    by (simp add: createMERTexture_step_def Let_def mer_metallic_of_def mer_subsurface_of_def)
  have q: "fold (createMERTexture_step sc) [0..<w * h] (a, b, c, e)
         = (fold ?F [0..<w * h] a, fold ?G [0..<w * h] b, fold ?H [0..<w * h] c, fold ?K [0..<w * h] e)"
    for a b c e
    using step by (rule fold_quad)
  show ?thesis
    unfolding createMERTexture_def Let_def q
    by (simp add: fold_buf_set_alloc combineChannels_maps ToUint8_zero)
qed

lemma createMERTexture_size:
  "tex_width (createMERTexture sc nc w h) = w" "tex_height (createMERTexture sc nc w h) = h"
  by (simp_all add: createMERTexture_def Let_def combineChannels_eq split: prod.split)

lemma nth_concat4:
  assumes "i < n" "j < 4"
  shows "concat (map (\<lambda>i. [fr i, fg i, fb i, fa i]) [0..<n]) ! (i * 4 + j) = [fr i, fg i, fb i, fa i] ! j"
  using nth_concat_uniform [of "map (\<lambda>i. [fr i, fg i, fb i, fa i]) [0..<n]" 4 i j] assms by simp

lemma length_concat4: "length (concat (map (\<lambda>i. [fr i, fg i, fb i, fa i]) [0..<n])) = n * 4"
  by (induction n) simp_all

lemma fold_fill_length: "length (fold (\<lambda>i d. buf_set d (off + i) v) xs d) = length d"
  by (induction xs arbitrary: d) (simp_all add: buf_set_def)

lemma fold_fill_nth:
  "k < length d \<Longrightarrow>
   fold (\<lambda>i d. buf_set d (off + i) v) [0..<n] d ! k
   = (if off \<le> k \<and> k < off + n then ToUint8 v else d ! k)"
proof (induction n)
  case 0
  show ?case by auto
next
  case (Suc n)
  let ?d = "fold (\<lambda>i d. buf_set d (off + i) v) [0..<n] d"
  have len: "k < length ?d" using Suc.prems by (simp add: fold_fill_length)
  have ih: "?d ! k = (if off \<le> k \<and> k < off + n then ToUint8 v else d ! k)"
    using Suc by simp
  have "fold (\<lambda>i d. buf_set d (off + i) v) [0..<Suc n] d ! k = ?d[off + n := ToUint8 v] ! k"
    by (simp add: buf_set_def)
  also have "\<dots> = (if k = off + n then ToUint8 v else ?d ! k)"
    using len by (simp add: nth_list_update)
  also have "\<dots> = (if off \<le> k \<and> k < off + Suc n then ToUint8 v else d ! k)"
    unfolding ih by auto
  finally show ?case .
qed

lemma hasSubsurface_scan_iff:
  "hasSubsurface_scan b pixelCount i \<longleftrightarrow> (\<exists>j. i \<le> j \<and> j < pixelCount \<and> js_ge (buf_get b j) 65)"
proof (induction b pixelCount i rule: hasSubsurface_scan.induct)
  case (1 b pixelCount i)
  show ?case
  proof (cases "i < pixelCount")
    case False
    thus ?thesis by (subst hasSubsurface_scan.simps) auto
  next
    case True
    show ?thesis
    proof (cases "js_ge (buf_get b i) 65")
      case True
      thus ?thesis using \<open>i < pixelCount\<close> by (subst hasSubsurface_scan.simps) auto
    next
      case False
      have "hasSubsurface_scan b pixelCount i = hasSubsurface_scan b pixelCount (Suc i)"
        using False True by (subst hasSubsurface_scan.simps) simp
      also have "\<dots> \<longleftrightarrow> (\<exists>j. Suc i \<le> j \<and> j < pixelCount \<and> js_ge (buf_get b j) 65)"
        using 1 True False by simp
      also have "\<dots> \<longleftrightarrow> (\<exists>j. i \<le> j \<and> j < pixelCount \<and> js_ge (buf_get b j) 65)"
        using False by (metis Suc_leD Suc_leI le_neq_implies_less)
      finally show ?thesis .
    qed
  qed
qed

section \<open>Combining the extracted channels\<close>

lemma concat_chunks:
  assumes "length xs = n * c" "0 < c"
  shows "concat (map (\<lambda>i. map (\<lambda>j. xs ! (i * c + j)) [0..<c]) [0..<n]) = xs"
proof (rule nth_equalityI)
  show len: "length (concat (map (\<lambda>i. map (\<lambda>j. xs ! (i * c + j)) [0..<c]) [0..<n])) = length xs"
    using assms by (simp add: length_concat comp_def sum_list_triv)
  fix k
  assume "k < length (concat (map (\<lambda>i. map (\<lambda>j. xs ! (i * c + j)) [0..<c]) [0..<n]))"
  hence k: "k < n * c" using len assms by simp
  define i where "i = k div c"
  define j where "j = k mod c"
  have j: "j < c" using assms by (simp add: j_def)
  have i: "i < n" using k assms by (simp add: i_def less_mult_imp_div_less)
  have kij: "k = i * c + j" by (simp add: i_def j_def)
  have "concat (map (\<lambda>i. map (\<lambda>j. xs ! (i * c + j)) [0..<c]) [0..<n]) ! (i * c + j)
        = map (\<lambda>i. map (\<lambda>j. xs ! (i * c + j)) [0..<c]) [0..<n] ! i ! j"
    using i j by (intro nth_concat_uniform) auto
  also have "\<dots> = xs ! (i * c + j)" using i j by simp
  finally show "concat (map (\<lambda>i. map (\<lambda>j. xs ! (i * c + j)) [0..<c]) [0..<n]) ! k = xs ! k"
    using kij by simp
qed

lemma upt_3: "[0..<3] = [0, 1, 2]" by (simp add: upt_rec)
lemma upt_4: "[0..<4] = [0, 1, 2, 3]" by (simp add: upt_rec)

text \<open>
  Claim C8. For a texture whose data has \<open>width * height * channels\<close> bytes, with 3 or
  4 channels, combining the channels that \<open>extractChannels\<close> returns gives the texture
  back: the same width, height, number of channels and bytes.
\<close>

theorem combine_extract_identity:
  assumes len: "length (tex_data b) = tex_width b * tex_height b * tex_channels b"
    and ch: "tex_channels b = 3 \<or> tex_channels b = 4"
  shows "combineChannels (extractChannels b) = b"
proof -
  define pc where "pc = tex_width b * tex_height b"
  define c where "c = tex_channels b"
  define d where "d = tex_data b"
  define cs where "cs = extractChannels b"
  have cs: "chan_r cs = map (\<lambda>i. ToUint8 (buf_get d (i * c))) [0..<pc]"
           "chan_g cs = map (\<lambda>i. ToUint8 (buf_get d (i * c + 1))) [0..<pc]"
           "chan_b cs = map (\<lambda>i. ToUint8 (buf_get d (i * c + 2))) [0..<pc]"
           "chan_a cs = (if c = 4 then Some (map (\<lambda>i. ToUint8 (buf_get d (i * c + 3))) [0..<pc]) else None)"
           "chan_width cs = tex_width b" "chan_height cs = tex_height b"
    by (simp_all add: cs_def extractChannels_eq pc_def c_def d_def)
  have lend: "length d = pc * c" using len by (simp add: pc_def c_def d_def)
  have inr: "i * c + j < length d" if "i < pc" "j < c" for i j
  proof -
    have "i * c + j < i * c + c" using that by simp
    also have "\<dots> = Suc i * c" by simp
    also have "\<dots> \<le> pc * c" using that by (intro mult_le_mono1) simp
    finally show ?thesis using lend by simp
  qed
  have pix: "pixel_bytes (chan_r cs) (chan_g cs) (chan_b cs) (chan_a cs) i
             = map (\<lambda>j. d ! (i * c + j)) [0..<c]" if i: "i < pc" for i
  proof (cases "c = 4")
    case True
    thus ?thesis
      using i inr [of i 0] inr [of i 1] inr [of i 2] inr [of i 3]
      by (simp add: pixel_bytes_def cs ToUint8_buf_get upt_4)
  next
    case False
    hence "c = 3" using ch by (simp add: c_def)
    thus ?thesis
      using i inr [of i 0] inr [of i 1] inr [of i 2]
      by (simp add: pixel_bytes_def cs ToUint8_buf_get upt_3)
  qed
  have c0: "0 < c" using ch by (auto simp: c_def)
  have "map (pixel_bytes (chan_r cs) (chan_g cs) (chan_b cs) (chan_a cs)) [0..<pc]
        = map (\<lambda>i. map (\<lambda>j. d ! (i * c + j)) [0..<c]) [0..<pc]"
    using pix by (intro map_cong) simp_all
  hence "concat (map (pixel_bytes (chan_r cs) (chan_g cs) (chan_b cs) (chan_a cs)) [0..<pc])
         = concat (map (\<lambda>i. map (\<lambda>j. d ! (i * c + j)) [0..<c]) [0..<pc])"
    by (rule arg_cong)
  also have "\<dots> = d" using lend c0 by (rule concat_chunks)
  finally have "concat (map (pixel_bytes (chan_r cs) (chan_g cs) (chan_b cs) (chan_a cs)) [0..<pc]) = d" .
  moreover have "(if chan_a cs = None then 3 else 4) = c" using ch by (auto simp: cs c_def)
  ultimately have "combineChannels cs =
     \<lparr>tex_width = tex_width b, tex_height = tex_height b, tex_data = d, tex_channels = c\<rparr>"
    by (simp add: combineChannels_eq cs pc_def)
  thus ?thesis by (simp add: cs_def d_def c_def)
qed

theorem combine_extract_identity_witness:
  "length (tex_data \<lparr>tex_width = 1, tex_height = 2, tex_data = [1, 2, 3, 4, 5, 6], tex_channels = 3\<rparr>)
     = tex_width \<lparr>tex_width = 1, tex_height = 2, tex_data = [1, 2, 3, 4, 5, 6], tex_channels = 3\<rparr>
       * tex_height \<lparr>tex_width = 1, tex_height = 2, tex_data = [1, 2, 3, 4, 5, 6], tex_channels = 3\<rparr>
       * tex_channels \<lparr>tex_width = 1, tex_height = 2, tex_data = [1, 2, 3, 4, 5, 6], tex_channels = 3\<rparr>
   \<and> combineChannels
         (extractChannels \<lparr>tex_width = 1, tex_height = 2, tex_data = [1, 2, 3, 4, 5, 6], tex_channels = 3\<rparr>)
       = \<lparr>tex_width = 1, tex_height = 2, tex_data = [1, 2, 3, 4, 5, 6], tex_channels = 3\<rparr>"
  using combine_extract_identity
    [of "\<lparr>tex_width = 1, tex_height = 2, tex_data = [1, 2, 3, 4, 5, 6], tex_channels = 3\<rparr>"]
  by simp

section \<open>Metallic pixels receive a predefined metal\<close>

lemma getPredefinedMetal_cases:
  "getPredefinedMetal r g b \<in> {Some 230, Some 231, Some 234, Some 237}"
  by (simp add: getPredefinedMetal_def)

lemma specular_f0_metal:
  "isMetallic (buf_get (mer_metallic mc) i) \<Longrightarrow> ToUint8 (specular_f0 mc cc i) \<in> {230, 231, 234, 237}"
  using getPredefinedMetal_cases [of "buf_get (chan_r cc) i" "buf_get (chan_g cc) i" "buf_get (chan_b cc) i"]
  by (auto simp: specular_f0_def ToUint8_numeral)

text \<open>
  Claim C10. \<open>getPredefinedMetal\<close> returns, for any three arguments, the code of Gold
  (231), Copper (234), Silver (237) or Iron (230), so a value of 230..237, and Iron
  whenever the red argument is not above 200. Hence in \<open>createSpecularTexture\<close> every
  pixel \<open>i\<close> of the metallic branch gets one of these four codes as its reflectance byte
  (the byte at offset \<open>4 i + 1\<close> of the specular data).
\<close>

theorem predefined_metal_range:
  "getPredefinedMetal r g b \<in> {Some (PredefinedMetal_value Gold), Some (PredefinedMetal_value Copper),
                                 Some (PredefinedMetal_value Silver), Some (PredefinedMetal_value Iron)}
   \<and> (\<exists>v. getPredefinedMetal r g b = Some v \<and> 230 \<le> v \<and> v \<le> 237)
   \<and> (\<not> js_gt r 200 \<longrightarrow> getPredefinedMetal r g b = Some (PredefinedMetal_value Iron))
   \<and> (i < w * h \<and> isMetallic (buf_get (mer_metallic merChannels) i) \<longrightarrow>
        tex_data (createSpecularTexture merChannels colorChannels w h) ! (i * 4 + 1)
          \<in> {230, 231, 234, 237})"
proof -
  have a: "getPredefinedMetal r g b \<in> {Some (PredefinedMetal_value Gold), Some (PredefinedMetal_value Copper),
                                 Some (PredefinedMetal_value Silver), Some (PredefinedMetal_value Iron)}"
    using getPredefinedMetal_cases [of r g b] by auto
  hence b: "\<exists>v. getPredefinedMetal r g b = Some v \<and> 230 \<le> v \<and> v \<le> 237" by auto
  have c: "\<not> js_gt r 200 \<longrightarrow> getPredefinedMetal r g b = Some (PredefinedMetal_value Iron)"
    by (simp add: getPredefinedMetal_def)
  have d: "tex_data (createSpecularTexture merChannels colorChannels w h) ! (i * 4 + 1)
          \<in> {230, 231, 234, 237}"
    if h: "i < w * h \<and> isMetallic (buf_get (mer_metallic merChannels) i)"
  proof -
    have "tex_data (createSpecularTexture merChannels colorChannels w h) ! (i * 4 + 1)
          = ToUint8 (specular_f0 merChannels colorChannels i)"
      unfolding createSpecularTexture_data using h by (subst nth_concat4) simp_all
    thus ?thesis using h specular_f0_metal [of merChannels i colorChannels] by simp
  qed
  show ?thesis
  proof (intro conjI)
    show "i < w * h \<and> isMetallic (buf_get (mer_metallic merChannels) i) \<longrightarrow>
        tex_data (createSpecularTexture merChannels colorChannels w h) ! (i * 4 + 1)
          \<in> {230, 231, 234, 237}"
      using d by (rule impI)
  qed (rule a b c)+
qed

theorem predefined_metal_range_witness:
  "(0::nat) < 1 * 1 \<and> isMetallic (buf_get (mer_metallic (fst goldPixel)) 0)
   \<and> tex_data (createSpecularTexture (fst goldPixel) (snd goldPixel) 1 1) ! (0 * 4 + 1)
        \<in> {230, 231, 234, 237}
   \<and> \<not> js_gt (Some 128) 200
   \<and> getPredefinedMetal (Some 128) (Some 128) (Some 128) = Some (PredefinedMetal_value Iron)"
proof -
  have m: "(0::nat) < 1 * 1 \<and> isMetallic (buf_get (mer_metallic (fst goldPixel)) 0)"
    by (simp add: goldPixel_def isMetallic_def js_gt_def buf_get_def)
  have n: "\<not> js_gt (Some 128) 200" by (simp add: js_gt_def)
  note t = predefined_metal_range [of "Some 128" "Some 128" "Some 128" 0 1 1 "fst goldPixel" "snd goldPixel"]
  have i: "getPredefinedMetal (Some 128) (Some 128) (Some 128) = Some (PredefinedMetal_value Iron)"
    using t [THEN conjunct2, THEN conjunct2, THEN conjunct1] n by (rule mp)
  have d: "tex_data (createSpecularTexture (fst goldPixel) (snd goldPixel) 1 1) ! (0 * 4 + 1)
        \<in> {230, 231, 234, 237}"
    using t [THEN conjunct2, THEN conjunct2, THEN conjunct2] m by (rule mp)
  show ?thesis
    by (intro conjI) (rule m [THEN conjunct1] m [THEN conjunct2] n i d)+
qed

section \<open>The end-to-end example\<close>

lemma roughnessToSmoothness_values:
  "roughnessToSmoothness (Some 0) = Some 255"
  "roughnessToSmoothness (Some 64) = Some 127"
  "roughnessToSmoothness (Some 128) = Some 74"
  "roughnessToSmoothness (Some 255) = Some 0"
  using roughnessToSmoothness_eval [of 0 255] roughnessToSmoothness_eval [of 64 127]
    roughnessToSmoothness_eval [of 128 74] roughnessToSmoothness_eval [of 255 0]
  by simp_all

lemma f0_values:
  "map (\<lambda>i. ToUint8 (specular_f0 (extractMERChannels packedExample) (extractChannels grayExample) i)) [0, 1, 2, 3]
     = [4, 230, 4, 230]"
  "map (\<lambda>i. ToUint8 (specular_porosity (extractMERChannels packedExample) i)) [0, 1, 2, 3] = [6, 6, 6, 6]"
  "map (\<lambda>i. ToUint8 (convertEmissive (buf_get (mer_emissive (extractMERChannels packedExample)) i))) [0, 1, 2, 3]
     = [0, 0, 128, 128]"
  "map (\<lambda>i. buf_get (mer_roughness (extractMERChannels packedExample)) i) [0, 1, 2, 3]
     = [Some 0, Some 64, Some 128, Some 255]"
  by code_simp+

lemma specular_example_data:
  "tex_data (specularFromTextures packedExample grayExample)
   = [255, 4, 6, 0,  127, 230, 6, 0,  74, 4, 6, 128,  0, 230, 6, 128]"
proof -
  have wh: "tex_width packedExample * tex_height packedExample = 4"
    by (simp add: packedExample_def)
  show ?thesis
    using f0_values
    by (simp add: specularFromTextures_def createSpecularTexture_data wh upt_4
          roughnessToSmoothness_values ToUint8_numeral ToUint8_zero)
qed

lemma specular_example:
  "specularFromTextures packedExample grayExample
   = \<lparr>tex_width = 2, tex_height = 2,
      tex_data = [255, 4, 6, 0,  127, 230, 6, 0,  74, 4, 6, 128,  0, 230, 6, 128],
      tex_channels = 4\<rparr>"
proof -
  have "tex_width (specularFromTextures packedExample grayExample) = 2"
       "tex_height (specularFromTextures packedExample grayExample) = 2"
       "tex_channels (specularFromTextures packedExample grayExample) = 4"
    by (simp_all add: specularFromTextures_def createSpecularTexture_def Let_def combineChannels_eq
          packedExample_def split: prod.split)
  thus ?thesis using specular_example_data
    by (cases "specularFromTextures packedExample grayExample") simp
qed

text \<open>
  Claim C1, as the specification states it, fails: the red channel of the specular
  texture of the example is not \<open>[255, 63, 193, 0]\<close>.
\<close>

theorem specular_example_red_not_as_stated:
  "chan_r (extractChannels (specularFromTextures packedExample grayExample)) \<noteq> [255, 63, 193, 0]"
  unfolding specular_example by code_simp

text \<open>
  Claim C1, amended. For the 2 by 2 packed texture with roughness \<open>[0, 64, 128, 255]\<close>,
  emissive \<open>[0, 0, 128, 128]\<close>, metallic \<open>[0, 255, 0, 255]\<close> and no alpha, over the
  uniform mid-gray colour texture, the red channel of the specular texture is
  \<open>roughnessToSmoothness\<close> of each roughness, which is \<open>[255, 127, 74, 0]\<close>, and its
  alpha channel is \<open>convertEmissive\<close> of each emissive value, which is
  \<open>[0, 0, 128, 128]\<close>.
\<close>

theorem specular_example_channels:
  "chan_r (extractChannels (specularFromTextures packedExample grayExample))
     = map (\<lambda>x. ToUint8 (roughnessToSmoothness (byte_number x))) [0, 64, 128, 255]
   \<and> chan_r (extractChannels (specularFromTextures packedExample grayExample)) = [255, 127, 74, 0]
   \<and> chan_a (extractChannels (specularFromTextures packedExample grayExample))
     = Some (map (\<lambda>x. ToUint8 (convertEmissive (byte_number x))) [0, 0, 128, 128])
   \<and> chan_a (extractChannels (specularFromTextures packedExample grayExample))
     = Some [0, 0, 128, 128]"
proof -
  have r: "chan_r (extractChannels (specularFromTextures packedExample grayExample)) = [255, 127, 74, 0]"
    unfolding specular_example by code_simp
  have a: "chan_a (extractChannels (specularFromTextures packedExample grayExample))
           = Some [0, 0, 128, 128]"
    unfolding specular_example by code_simp
  have s: "map (\<lambda>x. ToUint8 (roughnessToSmoothness (byte_number x))) [0, 64, 128, 255]
           = [255, 127, 74, 0]"
    by (simp add: byte_number_def roughnessToSmoothness_values ToUint8_numeral ToUint8_zero)
  have e: "map (\<lambda>x. ToUint8 (convertEmissive (byte_number x))) [0, 0, 128, 128] = [0, 0, 128, 128]"
    by (simp add: byte_number_def convertEmissive_def ToUint8_numeral ToUint8_zero)
  show ?thesis
    unfolding s e by (intro conjI) (rule r a)+
qed

section \<open>The scan for subsurface pixels and the forced alpha\<close>

lemma hasSubsurface_scan_0:
  "hasSubsurface_scan b pixelCount 0 \<longleftrightarrow> (\<exists>j<pixelCount. js_ge (buf_get b j) 65)"
  unfolding hasSubsurface_scan_iff [of b pixelCount 0] by simp

lemma merFromTextures_cases:
  "merFromTextures s n =
     (if hasSubsurface_scan (chan_b (extractChannels s)) (tex_width s * tex_height s) 0
      then (createMERTexture (extractChannels s) (extractChannels n) (tex_width s) (tex_height s),
            True, ''_mers'')
      else (forceOpaqueAlpha
              (createMERTexture (extractChannels s) (extractChannels n) (tex_width s) (tex_height s)),
            False, ''_mer''))"
  unfolding merFromTextures_def Let_def
  by (cases "hasSubsurface_scan (chan_b (extractChannels s)) (tex_width s * tex_height s) 0")
     (simp_all only: if_True if_False not_True_eq_False not_False_eq_True)

lemma forceOpaqueAlpha_alpha:
  assumes none: "\<not> (\<exists>j<w * h. js_ge (buf_get (chan_b sc) j) 65)" and i: "i < w * h"
  shows "tex_data (forceOpaqueAlpha (createMERTexture sc nc w h)) ! (i * 4 + 3) = 255"
proof -
  let ?d = "tex_data (createMERTexture sc nc w h)"
  have len: "length ?d = w * h * 4" by (simp add: createMERTexture_data length_concat4)
  have k: "i * 4 + 3 < length ?d" using i len by simp
  have "mer_subsurface_of (buf_get (chan_b sc) i) = Some 255"
    using none i by (auto simp: mer_subsurface_of_def)
  moreover have "?d ! (i * 4 + 3) = ToUint8 (mer_subsurface_of (buf_get (chan_b sc) i))"
    unfolding createMERTexture_data using i by (subst nth_concat4) simp_all
  ultimately have old: "?d ! (i * 4 + 3) = 255"
    by (simp add: ToUint8_numeral)
  have "tex_data (forceOpaqueAlpha (createMERTexture sc nc w h)) ! (i * 4 + 3)
        = fold (\<lambda>j d. buf_set d (w * h * 3 + j) (Some 255)) [0..<w * h] ?d ! (i * 4 + 3)"
    by (simp add: forceOpaqueAlpha_def Let_def createMERTexture_size)
  also have "\<dots> = (if w * h * 3 \<le> i * 4 + 3 \<and> i * 4 + 3 < w * h * 3 + w * h then ToUint8 (Some 255)
                    else ?d ! (i * 4 + 3))"
    using k by (rule fold_fill_nth)
  also have "\<dots> = 255" using old by (simp add: ToUint8_numeral)
  finally show ?thesis .
qed

text \<open>
  Claim C3 fails on the code. \<open>createMERTexture\<close> returns interleaved data, and the
  forcing step writes 255 at the indices \<open>3 * pixelCount + i\<close>, the last quarter of the
  data: for a 2 by 2 texture these are the four bytes of the last pixel, whose metallic,
  emissive and roughness bytes change from 0 to 255.
\<close>

theorem forcing_overwrites_last_pixel:
  "tex_data (createMERTexture (extractChannels smoothSpecular) (extractChannels smoothSpecular) 2 2)
     = [0, 0, 0, 255,  0, 0, 0, 255,  0, 0, 0, 255,  0, 0, 0, 255]
   \<and> merFromTextures smoothSpecular smoothSpecular
     = (\<lparr>tex_width = 2, tex_height = 2,
         tex_data = [0, 0, 0, 255,  0, 0, 0, 255,  0, 0, 0, 255,  255, 255, 255, 255],
         tex_channels = 4\<rparr>, False, ''_mer'')"
  by code_simp

section \<open>The decision of detectFormat\<close>

lemma confidenceScores_nonneg:
  "0 \<le> fst (confidenceScores f)" "0 \<le> snd (confidenceScores f)"
  by (simp_all add: confidenceScores_def Let_def)

lemma detectFormat_format:
  "det_format (detectFormat p t) =
     (if fst (confidenceScores (probe p t)) > snd (confidenceScores (probe p t)) then LabPBR
      else if snd (confidenceScores (probe p t)) > 0 then Bedrock
      else Unknown)"
  by (simp add: detectFormat_def Let_def split: prod.split)

text \<open>
  Claim C2, amended. \<open>detectFormat\<close> returns LabPBR when the LabPBR score is strictly
  higher, and Bedrock when the Bedrock score is strictly higher or when the two scores are
  equal and positive; it returns Unknown exactly when both scores are zero.
\<close>

theorem detectFormat_decision:
  "(fst (confidenceScores (probe p t)) > snd (confidenceScores (probe p t))
      \<longrightarrow> det_format (detectFormat p t) = LabPBR)
   \<and> (snd (confidenceScores (probe p t)) > fst (confidenceScores (probe p t))
      \<longrightarrow> det_format (detectFormat p t) = Bedrock)
   \<and> (fst (confidenceScores (probe p t)) = snd (confidenceScores (probe p t))
        \<and> 0 < snd (confidenceScores (probe p t))
      \<longrightarrow> det_format (detectFormat p t) = Bedrock)
   \<and> (det_format (detectFormat p t) = Unknown
      \<longleftrightarrow> fst (confidenceScores (probe p t)) = 0 \<and> snd (confidenceScores (probe p t)) = 0)"
  using confidenceScores_nonneg [of "probe p t"]
  by (auto simp: detectFormat_format)

text \<open>
  Claim C2, as the specification states it, fails: when only the base texture exists, the
  two scores are equal and positive, and the result is Bedrock, not Unknown.
\<close>

theorem tie_is_Bedrock:
  "fst (confidenceScores (probe (examplePlatform [''foo.png'']) ''foo.png''))
     = snd (confidenceScores (probe (examplePlatform [''foo.png'']) ''foo.png''))
   \<and> 0 < snd (confidenceScores (probe (examplePlatform [''foo.png'']) ''foo.png''))
   \<and> det_format (detectFormat (examplePlatform [''foo.png'']) ''foo.png'') = Bedrock
   \<and> det_format (detectFormat (examplePlatform [''foo.png'']) ''foo.png'') \<noteq> Unknown"
  by code_simp

lemma example_scores:
  "confidenceScores (probe (examplePlatform [''foo.png'']) ''foo.png'') = (1 / 10, 1 / 10)"
  "confidenceScores (probe (examplePlatform [''foo.png'', ''foo_s.png'', ''foo_n.png'']) ''foo_s.png'')
     = (8 / 10, 1 / 10)"
  "confidenceScores (probe (examplePlatform [''foo.png'', ''foo_mer.png'']) ''foo_mer.png'')
     = (1 / 10, 8 / 10)"
  "confidenceScores (probe (examplePlatform []) ''foo.png'') = (0, 0)"
  by code_simp+

theorem detectFormat_decision_witness:
  "fst (confidenceScores (probe (examplePlatform [''foo.png'', ''foo_s.png'', ''foo_n.png'']) ''foo_s.png''))
     > snd (confidenceScores (probe (examplePlatform [''foo.png'', ''foo_s.png'', ''foo_n.png'']) ''foo_s.png''))
   \<and> det_format (detectFormat (examplePlatform [''foo.png'', ''foo_s.png'', ''foo_n.png'']) ''foo_s.png'') = LabPBR
   \<and> snd (confidenceScores (probe (examplePlatform [''foo.png'', ''foo_mer.png'']) ''foo_mer.png''))
     > fst (confidenceScores (probe (examplePlatform [''foo.png'', ''foo_mer.png'']) ''foo_mer.png''))
   \<and> det_format (detectFormat (examplePlatform [''foo.png'', ''foo_mer.png'']) ''foo_mer.png'') = Bedrock
   \<and> fst (confidenceScores (probe (examplePlatform [''foo.png'']) ''foo.png''))
     = snd (confidenceScores (probe (examplePlatform [''foo.png'']) ''foo.png''))
   \<and> 0 < snd (confidenceScores (probe (examplePlatform [''foo.png'']) ''foo.png''))
   \<and> det_format (detectFormat (examplePlatform [''foo.png'']) ''foo.png'') = Bedrock
   \<and> fst (confidenceScores (probe (examplePlatform []) ''foo.png'')) = 0
   \<and> snd (confidenceScores (probe (examplePlatform []) ''foo.png'')) = 0
   \<and> det_format (detectFormat (examplePlatform []) ''foo.png'') = Unknown"
  using detectFormat_decision [of "examplePlatform [''foo.png'', ''foo_s.png'', ''foo_n.png'']" "''foo_s.png''"]
    detectFormat_decision [of "examplePlatform [''foo.png'', ''foo_mer.png'']" "''foo_mer.png''"]
    detectFormat_decision [of "examplePlatform [''foo.png'']" "''foo.png''"]
    detectFormat_decision [of "examplePlatform []" "''foo.png''"]
  unfolding example_scores by simp

section \<open>The conversions catch every fault\<close>

lemma keeps_ereturn: "keeps_unsuccessful (ereturn x)"
  by (simp add: keeps_unsuccessful_def ereturn_def)

lemma keeps_ethrow: "keeps_unsuccessful (ethrow e)"
  by (simp add: keeps_unsuccessful_def ethrow_def)

lemma keeps_ecall: "keeps_unsuccessful (ecall c)"
  by (simp add: keeps_unsuccessful_def ecall_def)

lemma keeps_messages_push: "keeps_unsuccessful (messages_push m)"
  by (auto simp: keeps_unsuccessful_def messages_push_def)

lemma keeps_set_outputPath: "keeps_unsuccessful (set_outputPath f q)"
  by (auto simp: keeps_unsuccessful_def set_outputPath_def)

lemma ebind_cases:
  assumes "ebind m f r = (x, r')"
  obtains (throws) e where "m r = (Inl e, r')" "x = Inl e"
        | (returns) a r1 where "m r = (Inr a, r1)" "f a r1 = (x, r')"
proof (cases "m r")
  case (Pair y r1)
  show ?thesis
  proof (cases y)
    case (Inl e)
    with Pair assms have "m r = (Inl e, r')" "x = Inl e" by (simp_all add: ebind_def)
    thus ?thesis by (rule throws)
  next
    case (Inr a)
    with Pair assms have "m r = (Inr a, r1)" "f a r1 = (x, r')" by (simp_all add: ebind_def)
    thus ?thesis by (rule returns)
  qed
qed

lemma keeps_ebind:
  assumes m: "keeps_unsuccessful m" and f: "\<And>x. keeps_unsuccessful (f x)"
  shows "keeps_unsuccessful (ebind m f)"
  unfolding keeps_unsuccessful_def
proof (intro allI impI)
  fix r x r'
  assume r: "\<not> res_success r" and b: "ebind m f r = (x, r')"
  from b show "\<not> res_success r'"
  proof (cases rule: ebind_cases)
    case (throws e)
    thus ?thesis using m r unfolding keeps_unsuccessful_def by blast
  next
    case (returns a r1)
    hence "\<not> res_success r1" using m r unfolding keeps_unsuccessful_def by blast
    thus ?thesis using f [of a] returns unfolding keeps_unsuccessful_def by blast
  qed
qed

lemma keeps_ethen:
  "keeps_unsuccessful m \<Longrightarrow> keeps_unsuccessful n \<Longrightarrow> keeps_unsuccessful (ethen m n)"
  unfolding ethen_def by (rule keeps_ebind)

lemma fault_ebind:
  assumes m: "keeps_unsuccessful m" and f: "\<And>x. fault_unsuccessful (f x)"
  shows "fault_unsuccessful (ebind m f)"
  unfolding fault_unsuccessful_def
proof (intro allI impI)
  fix r e r'
  assume r: "\<not> res_success r" and b: "ebind m f r = (Inl e, r')"
  from b show "\<not> res_success r'"
  proof (cases rule: ebind_cases)
    case (throws e')
    thus ?thesis using m r unfolding keeps_unsuccessful_def by blast
  next
    case (returns a r1)
    hence "\<not> res_success r1" using m r unfolding keeps_unsuccessful_def by blast
    thus ?thesis using f [of a] returns unfolding fault_unsuccessful_def by blast
  qed
qed

lemma fault_ethen:
  "keeps_unsuccessful m \<Longrightarrow> fault_unsuccessful n \<Longrightarrow> fault_unsuccessful (ethen m n)"
  unfolding ethen_def by (rule fault_ebind)

lemma fault_ethrow: "fault_unsuccessful (ethrow e)"
  by (simp add: fault_unsuccessful_def ethrow_def)

lemma fault_final: "fault_unsuccessful (ethen (set_success b) return_result)"
  by (simp add: fault_unsuccessful_def ethen_def ebind_def set_success_def return_result_def)

lemma returns_ebind:
  assumes f: "\<And>x. returns_success (f x)"
  shows "returns_success (ebind m f)"
  unfolding returns_success_def
proof (intro allI impI)
  fix r x r'
  assume b: "ebind m f r = (Inr x, r')"
  from b show "x = r' \<and> res_success r'"
  proof (cases rule: ebind_cases)
    case (throws e)
    thus ?thesis by simp
  next
    case (returns a r1)
    thus ?thesis using f [of a] unfolding returns_success_def by blast
  qed
qed

lemma returns_ethen: "returns_success n \<Longrightarrow> returns_success (ethen m n)"
  unfolding ethen_def by (rule returns_ebind)

lemma returns_final: "returns_success (ethen (set_success True) return_result)"
  by (simp add: returns_success_def ethen_def ebind_def set_success_def return_result_def)

lemma keeps_if:
  "keeps_unsuccessful a \<Longrightarrow> keeps_unsuccessful b \<Longrightarrow> keeps_unsuccessful (if c then a else b)"
  by simp

lemma keeps_case_option:
  "keeps_unsuccessful a \<Longrightarrow> (\<And>x. keeps_unsuccessful (b x)) \<Longrightarrow>
   keeps_unsuccessful (case v of None \<Rightarrow> a | Some x \<Rightarrow> b x)"
  by (cases v) simp_all

lemma keeps_case_triple:
  "(\<And>x y z. keeps_unsuccessful (f x y z)) \<Longrightarrow>
   keeps_unsuccessful (case v of (x, y, z) \<Rightarrow> f x y z)"
  by (cases v) simp

lemmas keeps_intros =
  keeps_ebind keeps_ethen keeps_ereturn keeps_ethrow keeps_ecall keeps_messages_push
  keeps_set_outputPath keeps_if keeps_case_option

lemma keeps_findColor:
  "keeps_unsuccessful
     (if \<not> string_truthy c
      then (case findColorTexture p m of
              None \<Rightarrow> ethrow (Error ''Could not find corresponding color texture'')
            | Some foundTexturePath \<Rightarrow>
                if foundTexturePath = []
                then ethrow (Error ''Could not find corresponding color texture'')
                else ethen (messages_push
                              (''Found color texture: '' @ path_basename p foundTexturePath))
                       (ereturn foundTexturePath))
      else ereturn (string_or c []))"
  by (intro keeps_intros)

lemma fault_convertTexture_try:
  "fault_unsuccessful (convertTexture_try p m c out opts)"
  unfolding convertTexture_try_def Let_def
  by (intro fault_ebind fault_ethen fault_final keeps_findColor keeps_intros)

lemma returns_convertTexture_try:
  "returns_success (convertTexture_try p m c out opts)"
  unfolding convertTexture_try_def Let_def
  by (intro returns_ebind returns_ethen returns_final)

lemma keeps_saveMER: "keeps_unsuccessful (saveMER p opts d b s n)"
  unfolding saveMER_def Let_def
  by (intro keeps_case_triple keeps_intros)

lemma keeps_saveBedrockNormal: "keeps_unsuccessful (saveBedrockNormal p opts d b n)"
  unfolding saveBedrockNormal_def Let_def by (intro keeps_intros)

lemma keeps_saveHeightMap: "keeps_unsuccessful (saveHeightMap p opts d b n)"
  unfolding saveHeightMap_def Let_def
  by (intro keeps_intros)

lemma keeps_saveBaseColorWithAO: "keeps_unsuccessful (saveBaseColorWithAO p opts d b n c)"
  unfolding saveBaseColorWithAO_def Let_def
  by (intro keeps_intros)

lemma fault_convertLabPBRToBedrock_try:
  "fault_unsuccessful (convertLabPBRToBedrock_try p s n b out opts)"
  unfolding convertLabPBRToBedrock_try_def Let_def
  by (intro fault_ethen fault_ebind fault_final keeps_messages_push keeps_ecall keeps_saveMER
        keeps_saveBedrockNormal keeps_saveHeightMap keeps_saveBaseColorWithAO)

lemma returns_convertLabPBRToBedrock_try:
  "returns_success (convertLabPBRToBedrock_try p s n b out opts)"
  unfolding convertLabPBRToBedrock_try_def Let_def
  by (intro returns_ethen returns_ebind returns_final)

lemma try_catch_error:
  "fst (try_catch body catch_error r) =
     (case body r of
        (Inl e, r') \<Rightarrow> Inr (r'\<lparr>res_messages := res_messages r' @ [''Error: '' @ error_message e]\<rparr>)
      | (Inr x, r') \<Rightarrow> Inr x)"
  by (simp add: try_catch_def catch_error_def ethen_def ebind_def messages_push_def
        return_result_def split: prod.split sum.split)

lemma caught:
  assumes f: "fault_unsuccessful body" and s: "returns_success body" and r: "\<not> res_success r"
  shows "\<exists>res. fst (try_catch body catch_error r) = Inr res
           \<and> (case body r of
                 (Inl e, r') \<Rightarrow>
                   res = r'\<lparr>res_messages := res_messages r' @ [''Error: '' @ error_message e]\<rparr>
                   \<and> \<not> res_success res
               | (Inr x, r') \<Rightarrow> res = r' \<and> res_success res)
           \<and> (res_success res
                \<or> (res_messages res \<noteq> []
                    \<and> (\<exists>e. last (res_messages res) = ''Error: '' @ error_message e)))"
proof (cases "body r")
  case (Pair y r')
  show ?thesis
  proof (cases y)
    case (Inl e)
    hence "\<not> res_success r'"
      using f r Pair unfolding fault_unsuccessful_def by blast
    thus ?thesis using Pair Inl by (auto simp: try_catch_error)
  next
    case (Inr x)
    hence "x = r' \<and> res_success r'"
      using s Pair unfolding returns_success_def by blast
    thus ?thesis using Pair Inr by (simp add: try_catch_error)
  qed
qed

lemma convertTexture_caught:
  "\<exists>res. convertTexture p m c out opts = Inr res
     \<and> (case convertTexture_try p m c out opts (convertTexture_result m) of
           (Inl e, r) \<Rightarrow>
             res = r\<lparr>res_messages := res_messages r @ [''Error: '' @ error_message e]\<rparr>
             \<and> \<not> res_success res
         | (Inr x, r) \<Rightarrow> res = r \<and> res_success res)
     \<and> (res_success res
          \<or> (res_messages res \<noteq> []
              \<and> (\<exists>e. last (res_messages res) = ''Error: '' @ error_message e)))"
  unfolding convertTexture_def Let_def
  by (rule caught [OF fault_convertTexture_try returns_convertTexture_try])
     (simp add: convertTexture_result_def)

lemma convertLabPBRToBedrock_caught:
  "\<exists>res. convertLabPBRToBedrock p s n b out opts = Inr res
     \<and> (case convertLabPBRToBedrock_try p s n b out opts (convertLabPBRToBedrock_result s) of
           (Inl e, r) \<Rightarrow>
             res = r\<lparr>res_messages := res_messages r @ [''Error: '' @ error_message e]\<rparr>
             \<and> \<not> res_success res
         | (Inr x, r) \<Rightarrow> res = r \<and> res_success res)
     \<and> (res_success res
          \<or> (res_messages res \<noteq> []
              \<and> (\<exists>e. last (res_messages res) = ''Error: '' @ error_message e)))"
  unfolding convertLabPBRToBedrock_def Let_def
  by (rule caught [OF fault_convertLabPBRToBedrock_try returns_convertLabPBRToBedrock_try])
     (simp add: convertLabPBRToBedrock_result_def)

lemma outcome_ebind:
  assumes f: "\<And>x. returns_outcome (f x)"
  shows "returns_outcome (ebind m f)"
  unfolding returns_outcome_def
proof (intro allI impI)
  fix r x r'
  assume b: "ebind m f r = (Inr x, r')"
  from b show "x = r' \<and> outcome_ok r'"
  proof (cases rule: ebind_cases)
    case (throws e)
    thus ?thesis by simp
  next
    case (returns a r1)
    thus ?thesis using f [of a] unfolding returns_outcome_def by blast
  qed
qed

lemma outcome_ethen: "returns_outcome n \<Longrightarrow> returns_outcome (ethen m n)"
  unfolding ethen_def by (rule outcome_ebind)

lemma outcome_ethrow: "returns_outcome (ethrow e)"
  by (simp add: returns_outcome_def ethrow_def)

lemma outcome_if: "returns_outcome a \<Longrightarrow> returns_outcome b \<Longrightarrow> returns_outcome (if c then a else b)"
  by simp

lemma outcome_copy:
  assumes "\<And>res. c = Inr res \<Longrightarrow> outcome_ok res"
  shows "returns_outcome (ebind (ecall c) (\<lambda>res. ethen (copy_results res) return_result))"
  unfolding returns_outcome_def
proof (intro allI impI)
  fix r x r'
  assume b: "ebind (ecall c) (\<lambda>res. ethen (copy_results res) return_result) r = (Inr x, r')"
  from b show "x = r' \<and> outcome_ok r'"
  proof (cases rule: ebind_cases)
    case (throws e)
    thus ?thesis by simp
  next
    case (returns res r1)
    hence c: "c = Inr res" by (simp add: ecall_def)
    hence ok: "outcome_ok res" by (rule assms)
    have x: "x = r'" and r': "r' = r1\<lparr>res_success := res_success res,
                     res_messages := res_messages r1 @ res_messages res,
                     res_outputPaths := res_outputPaths res\<rparr>"
      using returns(2)
      by (auto simp: ethen_def ebind_def copy_results_def return_result_def)
    have "outcome_ok r'"
      using ok unfolding r' outcome_ok_def by auto
    thus ?thesis using x by simp
  qed
qed

lemma fault_copy: "fault_unsuccessful (ethen (copy_results c) return_result)"
  by (simp add: fault_unsuccessful_def ethen_def ebind_def copy_results_def return_result_def)

lemma fault_if:
  "fault_unsuccessful a \<Longrightarrow> fault_unsuccessful b \<Longrightarrow> fault_unsuccessful (if c then a else b)"
  by simp

lemma fault_convertAuto_try:
  "fault_unsuccessful (convertAuto_try p t out opts det dir)"
  unfolding convertAuto_try_def Let_def
  by (intro fault_if fault_ethen fault_ebind fault_ethrow fault_copy keeps_messages_push keeps_ecall)

lemma outcome_convertAuto_try:
  "returns_outcome (convertAuto_try p t out opts det dir)"
  unfolding convertAuto_try_def Let_def
proof (intro outcome_if outcome_ethen outcome_ethrow outcome_copy)
  fix res
  assume "convertTexture p (string_or (det_merTexturePath det) t) (det_baseTexturePath det) out opts
          = Inr res"
  thus "outcome_ok res"
    using convertTexture_caught [of p "string_or (det_merTexturePath det) t" "det_baseTexturePath det" out opts]
    unfolding outcome_ok_def by auto
next
  fix res
  assume "convertLabPBRToBedrock p (string_or (det_specularTexturePath det) t)
            (string_or (det_normalTexturePath det) []) (string_or (det_baseTexturePath det) [])
            out opts = Inr res"
  thus "outcome_ok res"
    using convertLabPBRToBedrock_caught [of p "string_or (det_specularTexturePath det) t"
            "string_or (det_normalTexturePath det) []" "string_or (det_baseTexturePath det) []" out opts]
    unfolding outcome_ok_def by auto
qed

lemma convertAuto_caught:
  "\<exists>res. convertAuto p t out opts = Inr res
     \<and> (case convertAuto_try p t out opts (detectFormat p t)
                (convertAuto_direction (detectFormat p t) opts)
                (convertAuto_result p t (detectFormat p t)
                   (convertAuto_direction (detectFormat p t) opts)) of
           (Inl e, r) \<Rightarrow>
             res = r\<lparr>res_messages := res_messages r @ [''Error: '' @ error_message e]\<rparr>
             \<and> \<not> res_success res
         | (Inr x, r) \<Rightarrow> res = r)
     \<and> (res_success res
          \<or> (res_messages res \<noteq> []
              \<and> (\<exists>e. last (res_messages res) = ''Error: '' @ error_message e)))"
proof -
  define det where "det = detectFormat p t"
  define dir where "dir = convertAuto_direction det opts"
  define r0 where "r0 = convertAuto_result p t det dir"
  have r0: "\<not> res_success r0" by (simp add: r0_def convertAuto_result_def)
  have eq: "convertAuto p t out opts = fst (try_catch (convertAuto_try p t out opts det dir) catch_error r0)"
    by (simp add: convertAuto_def Let_def det_def dir_def r0_def)
  show ?thesis
  proof (cases "convertAuto_try p t out opts det dir r0")
    case (Pair y r')
    show ?thesis
    proof (cases y)
      case (Inl e)
      hence "\<not> res_success r'"
        using fault_convertAuto_try [of p t out opts det dir] r0 Pair
        unfolding fault_unsuccessful_def by blast
      thus ?thesis
        unfolding eq det_def [symmetric] dir_def [symmetric] r0_def [symmetric]
        using Pair Inl by (auto simp: try_catch_error)
    next
      case (Inr x)
      hence "x = r' \<and> outcome_ok r'"
        using outcome_convertAuto_try [of p t out opts det dir] Pair
        unfolding returns_outcome_def by blast
      thus ?thesis
        unfolding eq det_def [symmetric] dir_def [symmetric] r0_def [symmetric]
        using Pair Inr by (simp add: try_catch_error outcome_ok_def)
    qed
  qed
qed

lemmas action_defs =
  ebind_def ethen_def ereturn_def ethrow_def ecall_def messages_push_def set_outputPath_def
  set_success_def return_result_def try_catch_def catch_error_def copy_results_def

lemma fixed2_zero: "fixed2 0 = ''0.00''" by code_simp

lemma load_missing:
  "loadTexture (examplePlatform []) f
   = Inl (Error (''Failed to load texture '' @ f @ '': Error: Texture file not found: '' @ f))"
  by (simp add: loadTexture_def examplePlatform_def)

lemma convertTexture_try_missing:
  "fst (convertTexture_try (examplePlatform []) ''foo_mer.png'' (Some ''foo.png'') None noOptions
          (convertTexture_result ''foo_mer.png''))
   = Inl (Error ''Failed to load texture foo_mer.png: Error: Texture file not found: foo_mer.png'')"
  by (simp add: convertTexture_try_def string_truthy_def string_or_def action_defs load_missing
        Let_def)

lemma detect_nothing:
  "detectFormat (examplePlatform []) ''foo.png''
   = \<lparr>det_format = Unknown, det_baseTexturePath = None, det_merTexturePath = None,
      det_specularTexturePath = None, det_normalTexturePath = None, det_confidence = 0\<rparr>"
  by code_simp

lemma toFixed_example: "number_toFixed (examplePlatform files) x n = fixed2 x"
  by (simp add: examplePlatform_def)

lemma convertAuto_nothing:
  "(case convertAuto (examplePlatform []) ''foo.png'' None noOptions of
      Inl e \<Rightarrow> [] | Inr res \<Rightarrow> res_messages res)
   = [''Detected format: Unknown (confidence: 0.00)'',
      ''Converting from LabPBR to Bedrock format...'',
      ''Error: Could not find required textures for LabPBR to Bedrock conversion'']"
  by (simp add: convertAuto_def convertAuto_try_def convertAuto_direction_def convertAuto_result_def
        detect_nothing noOptions_def string_truthy_def string_or_def action_defs Let_def
        toFixed_example fixed2_zero)

text \<open>
  Claim C9. Each of the three conversion calls returns a result and never throws, whatever
  the platform does. When its \<^verbatim>\<open>try\<close> block throws, the result is the result object
  as it was at the throw, with the message \<open>Error: \<close> and the text of the error appended,
  and it is not successful. When the block returns, the call returns the result object,
  which \<open>convertTexture\<close> and \<open>convertLabPBRToBedrock\<close> have marked successful. Every
  result that is not successful ends with the message of an error.
\<close>

theorem conversion_calls_catch_faults:
  "(\<exists>res. convertTexture p merTexturePath colorTexturePath outputDir options = Inr res
      \<and> (case convertTexture_try p merTexturePath colorTexturePath outputDir options
                 (convertTexture_result merTexturePath) of
            (Inl e, r) \<Rightarrow>
              res = r\<lparr>res_messages := res_messages r @ [''Error: '' @ error_message e]\<rparr>
              \<and> \<not> res_success res
          | (Inr x, r) \<Rightarrow> res = r \<and> res_success res)
      \<and> (res_success res
           \<or> (res_messages res \<noteq> []
               \<and> (\<exists>e. last (res_messages res) = ''Error: '' @ error_message e))))
   \<and> (\<exists>res. convertLabPBRToBedrock p specularTexturePath normalTexturePath baseTexturePath
               outputDir options = Inr res
      \<and> (case convertLabPBRToBedrock_try p specularTexturePath normalTexturePath baseTexturePath
                 outputDir options (convertLabPBRToBedrock_result specularTexturePath) of
            (Inl e, r) \<Rightarrow>
              res = r\<lparr>res_messages := res_messages r @ [''Error: '' @ error_message e]\<rparr>
              \<and> \<not> res_success res
          | (Inr x, r) \<Rightarrow> res = r \<and> res_success res)
      \<and> (res_success res
           \<or> (res_messages res \<noteq> []
               \<and> (\<exists>e. last (res_messages res) = ''Error: '' @ error_message e))))
   \<and> (\<exists>res. convertAuto p texturePath outputDir options = Inr res
      \<and> (case convertAuto_try p texturePath outputDir options (detectFormat p texturePath)
                 (convertAuto_direction (detectFormat p texturePath) options)
                 (convertAuto_result p texturePath (detectFormat p texturePath)
                    (convertAuto_direction (detectFormat p texturePath) options)) of
            (Inl e, r) \<Rightarrow>
              res = r\<lparr>res_messages := res_messages r @ [''Error: '' @ error_message e]\<rparr>
              \<and> \<not> res_success res
          | (Inr x, r) \<Rightarrow> res = r)
      \<and> (res_success res
           \<or> (res_messages res \<noteq> []
               \<and> (\<exists>e. last (res_messages res) = ''Error: '' @ error_message e))))"
  by (intro conjI convertTexture_caught convertLabPBRToBedrock_caught convertAuto_caught)

theorem conversion_calls_catch_faults_witness:
  "(\<exists>res. convertTexture (examplePlatform []) ''foo_mer.png'' (Some ''foo.png'') None noOptions
             = Inr res
      \<and> \<not> res_success res
      \<and> last (res_messages res)
          = ''Error: Failed to load texture foo_mer.png: Error: Texture file not found: foo_mer.png'')
   \<and> (\<exists>res. convertAuto (examplePlatform []) ''foo.png'' None noOptions = Inr res
      \<and> res_messages res
          = [''Detected format: Unknown (confidence: 0.00)'',
             ''Converting from LabPBR to Bedrock format...'',
             ''Error: Could not find required textures for LabPBR to Bedrock conversion''])"
proof -
  note t = conversion_calls_catch_faults
    [where p = "examplePlatform []" and merTexturePath = "''foo_mer.png''"
       and colorTexturePath = "Some ''foo.png''" and outputDir = None and options = noOptions
       and texturePath = "''foo.png''" and specularTexturePath = "''foo_s.png''"
       and normalTexturePath = "''foo_n.png''" and baseTexturePath = "''foo.png''"]
  from t [THEN conjunct1] obtain res where
    h: "convertTexture (examplePlatform []) ''foo_mer.png'' (Some ''foo.png'') None noOptions = Inr res
      \<and> (case convertTexture_try (examplePlatform []) ''foo_mer.png'' (Some ''foo.png'') None
                 noOptions (convertTexture_result ''foo_mer.png'') of
            (Inl e, r) \<Rightarrow>
              res = r\<lparr>res_messages := res_messages r @ [''Error: '' @ error_message e]\<rparr>
              \<and> \<not> res_success res
          | (Inr x, r) \<Rightarrow> res = r \<and> res_success res)
      \<and> (res_success res
           \<or> (res_messages res \<noteq> []
               \<and> (\<exists>e. last (res_messages res) = ''Error: '' @ error_message e)))" ..
  note res = h [THEN conjunct1] and c = h [THEN conjunct2, THEN conjunct1]
  obtain r where "convertTexture_try (examplePlatform []) ''foo_mer.png'' (Some ''foo.png'') None
        noOptions (convertTexture_result ''foo_mer.png'')
      = (Inl (Error ''Failed to load texture foo_mer.png: Error: Texture file not found: foo_mer.png''), r)"
    using convertTexture_try_missing
    by (cases "convertTexture_try (examplePlatform []) ''foo_mer.png'' (Some ''foo.png'') None
        noOptions (convertTexture_result ''foo_mer.png'')") simp
  hence "\<not> res_success res \<and> last (res_messages res)
          = ''Error: Failed to load texture foo_mer.png: Error: Texture file not found: foo_mer.png''"
    using c by auto
  hence first: "\<exists>res. convertTexture (examplePlatform []) ''foo_mer.png'' (Some ''foo.png'') None
        noOptions = Inr res
      \<and> \<not> res_success res
      \<and> last (res_messages res)
          = ''Error: Failed to load texture foo_mer.png: Error: Texture file not found: foo_mer.png''"
    using res by (intro exI [of _ res]) simp
  from t [THEN conjunct2, THEN conjunct2] obtain res' where
    h': "convertAuto (examplePlatform []) ''foo.png'' None noOptions = Inr res'
      \<and> (case convertAuto_try (examplePlatform []) ''foo.png'' None noOptions
                 (detectFormat (examplePlatform []) ''foo.png'')
                 (convertAuto_direction (detectFormat (examplePlatform []) ''foo.png'') noOptions)
                 (convertAuto_result (examplePlatform []) ''foo.png''
                    (detectFormat (examplePlatform []) ''foo.png'')
                    (convertAuto_direction (detectFormat (examplePlatform []) ''foo.png'')
                       noOptions)) of
            (Inl e, r) \<Rightarrow>
              res' = r\<lparr>res_messages := res_messages r @ [''Error: '' @ error_message e]\<rparr>
              \<and> \<not> res_success res'
          | (Inr x, r) \<Rightarrow> res' = r)
      \<and> (res_success res'
           \<or> (res_messages res' \<noteq> []
               \<and> (\<exists>e. last (res_messages res') = ''Error: '' @ error_message e)))" ..
  note res' = h' [THEN conjunct1]
  from res'
  have "res_messages res'
          = [''Detected format: Unknown (confidence: 0.00)'',
             ''Converting from LabPBR to Bedrock format...'',
             ''Error: Could not find required textures for LabPBR to Bedrock conversion'']"
    using convertAuto_nothing by simp
  hence second: "\<exists>res. convertAuto (examplePlatform []) ''foo.png'' None noOptions = Inr res
      \<and> res_messages res
          = [''Detected format: Unknown (confidence: 0.00)'',
             ''Converting from LabPBR to Bedrock format...'',
             ''Error: Could not find required textures for LabPBR to Bedrock conversion'']"
    using res' by (intro exI [of _ res']) simp
  show ?thesis using first second by (rule conjI)
qed

section \<open>The subsurface decision and the name of the MER file\<close>

lemma ethen_push: "ethen (messages_push m) k r = k (r\<lparr>res_messages := res_messages r @ [m]\<rparr>)"
  by (simp add: ethen_def ebind_def messages_push_def)

lemma ebind_ecall_Inr: "ebind (ecall (Inr x)) f r = f x r"
  by (simp add: ebind_def ecall_def)

lemma ebind_ecall_Inl: "ebind (ecall (Inl e)) f r = (Inl e, r)"
  by (simp add: ebind_def ecall_def)

lemma saveMER_eq:
  "saveMER p options dir base s n r =
     (case saveTexture p (fst (merFromTextures s n))
             (path_join p dir
                (path_basename_ext p base (path_extname p base)
                 @ (if \<exists>j < tex_width s * tex_height s.
                          js_ge (buf_get (chan_b (extractChannels s)) j) 65
                    then ''_mers'' else ''_mer'')
                 @ path_extname p base))
             (opt_outputFormat options) (opt_compressionLevel options) of
        Inl e \<Rightarrow> (Inl e, r)
      | Inr _ \<Rightarrow>
          (Inr (),
           r\<lparr>res_outputPaths := (res_outputPaths r)(''mer'' \<mapsto>
                path_join p dir
                  (path_basename_ext p base (path_extname p base)
                   @ (if \<exists>j < tex_width s * tex_height s.
                            js_ge (buf_get (chan_b (extractChannels s)) j) 65
                      then ''_mers'' else ''_mer'')
                   @ path_extname p base)),
             res_messages := res_messages r @
               [''Saved '' @ (if \<exists>j < tex_width s * tex_height s.
                                  js_ge (buf_get (chan_b (extractChannels s)) j) 65
                              then ''MERS'' else ''MER'')
                @ '' texture to: ''
                @ path_basename p
                    (path_join p dir
                       (path_basename_ext p base (path_extname p base)
                        @ (if \<exists>j < tex_width s * tex_height s.
                                 js_ge (buf_get (chan_b (extractChannels s)) j) 65
                           then ''_mers'' else ''_mer'')
                        @ path_extname p base))]\<rparr>))"
proof (cases "\<exists>j < tex_width s * tex_height s. js_ge (buf_get (chan_b (extractChannels s)) j) 65")
  case True
  hence "hasSubsurface_scan (chan_b (extractChannels s)) (tex_width s * tex_height s) 0"
    unfolding hasSubsurface_scan_0 .
  hence m: "merFromTextures s n =
     (createMERTexture (extractChannels s) (extractChannels n) (tex_width s) (tex_height s),
      True, ''_mers'')"
    by (simp only: merFromTextures_cases if_True)
  show ?thesis
    unfolding saveMER_def m
    apply (simp only: True if_True)
    apply (simp add: Let_def outputPath_def ebind_def ethen_def ecall_def set_outputPath_def
             messages_push_def split: sum.split)
    done
next
  case False
  hence "\<not> hasSubsurface_scan (chan_b (extractChannels s)) (tex_width s * tex_height s) 0"
    unfolding hasSubsurface_scan_0 .
  hence m: "merFromTextures s n =
     (forceOpaqueAlpha
        (createMERTexture (extractChannels s) (extractChannels n) (tex_width s) (tex_height s)),
      False, ''_mer'')"
    by (simp only: merFromTextures_cases if_False)
  show ?thesis
    unfolding saveMER_def m
    apply (simp only: False if_False)
    apply (simp add: Let_def outputPath_def ebind_def ethen_def ecall_def set_outputPath_def
             messages_push_def split: sum.split)
    done
qed

lemma mer_ereturn: "keeps_mer (ereturn x)"
  by (simp add: keeps_mer_def ereturn_def)

lemma mer_ecall: "keeps_mer (ecall c)"
  by (simp add: keeps_mer_def ecall_def)

lemma mer_messages_push: "keeps_mer (messages_push m)"
  by (auto simp: keeps_mer_def messages_push_def)

lemma mer_set_outputPath: "f \<noteq> ''mer'' \<Longrightarrow> keeps_mer (set_outputPath f q)"
  by (auto simp: keeps_mer_def set_outputPath_def)

lemma mer_final: "keeps_mer (ethen (set_success b) return_result)"
  by (auto simp: keeps_mer_def ethen_def ebind_def set_success_def return_result_def)

lemma mer_ebind:
  assumes m: "keeps_mer m" and f: "\<And>x. keeps_mer (f x)"
  shows "keeps_mer (ebind m f)"
  unfolding keeps_mer_def
proof (intro allI impI)
  fix r y r'
  assume b: "ebind m f r = (y, r')"
  from b show "res_outputPaths r' ''mer'' = res_outputPaths r ''mer''"
  proof (rule ebind_cases)
    fix e
    assume "m r = (Inl e, r')"
    thus ?thesis using m unfolding keeps_mer_def by blast
  next
    fix x r1
    assume 1: "m r = (Inr x, r1)" and 2: "f x r1 = (y, r')"
    from 1 m have "res_outputPaths r1 ''mer'' = res_outputPaths r ''mer''"
      unfolding keeps_mer_def by blast
    moreover from 2 f [of x] have "res_outputPaths r' ''mer'' = res_outputPaths r1 ''mer''"
      unfolding keeps_mer_def by blast
    ultimately show ?thesis by simp
  qed
qed

lemma mer_ethen: "keeps_mer m \<Longrightarrow> keeps_mer n \<Longrightarrow> keeps_mer (ethen m n)"
  unfolding ethen_def by (rule mer_ebind)

lemma mer_if: "keeps_mer a \<Longrightarrow> keeps_mer b \<Longrightarrow> keeps_mer (if c then a else b)"
  by simp

lemmas mer_intros =
  mer_ethen mer_ebind mer_if mer_ereturn mer_ecall mer_messages_push mer_set_outputPath mer_final

lemma mer_saveBedrockNormal: "keeps_mer (saveBedrockNormal p opts d b n)"
  unfolding saveBedrockNormal_def Let_def by (intro mer_intros) simp

lemma mer_saveHeightMap: "keeps_mer (saveHeightMap p opts d b n)"
  unfolding saveHeightMap_def Let_def by (intro mer_intros) simp

lemma mer_saveBaseColorWithAO: "keeps_mer (saveBaseColorWithAO p opts d b n c)"
  unfolding saveBaseColorWithAO_def Let_def by (intro mer_intros) simp

lemma convertLabPBRToBedrock_mer:
  assumes ls: "loadTexture p sp = Inr s" "loadTexture p np = Inr n" "loadTexture p bp = Inr b"
  shows "\<exists>res. convertLabPBRToBedrock p sp np bp out options = Inr res
           \<and> (case saveTexture p (fst (merFromTextures s n))
                     (path_join p (string_or out (path_dirname p sp))
                        (path_basename_ext p bp (path_extname p bp)
                         @ (if \<exists>j < tex_width s * tex_height s.
                                  js_ge (buf_get (chan_b (extractChannels s)) j) 65
                            then ''_mers'' else ''_mer'')
                         @ path_extname p bp))
                     (opt_outputFormat options) (opt_compressionLevel options) of
                 Inl e \<Rightarrow> res_outputPaths res ''mer'' = None \<and> \<not> res_success res
               | Inr _ \<Rightarrow>
                   res_outputPaths res ''mer'' =
                     Some (path_join p (string_or out (path_dirname p sp))
                             (path_basename_ext p bp (path_extname p bp)
                              @ (if \<exists>j < tex_width s * tex_height s.
                                       js_ge (buf_get (chan_b (extractChannels s)) j) 65
                                 then ''_mers'' else ''_mer'')
                              @ path_extname p bp)))"
proof -
  define dir where "dir = string_or out (path_dirname p sp)"
  define path where "path = path_join p dir
                        (path_basename_ext p bp (path_extname p bp)
                         @ (if \<exists>j < tex_width s * tex_height s.
                                  js_ge (buf_get (chan_b (extractChannels s)) j) 65
                            then ''_mers'' else ''_mer'')
                         @ path_extname p bp)"
  define r1 where "r1 = (convertLabPBRToBedrock_result sp)
     \<lparr>res_messages := [''Loading textures...'', ''Extracting channels...'',
                       ''Creating MER texture...'']\<rparr>"
  define rest where "rest =
     ethen (saveBedrockNormal p options dir bp n)
    (ethen (saveHeightMap p options dir bp n)
    (ethen (saveBaseColorWithAO p options dir bp n b)
    (ethen (set_success True) return_result)))"
  have body: "convertLabPBRToBedrock_try p sp np bp out options (convertLabPBRToBedrock_result sp)
              = ethen (saveMER p options dir bp s n) rest r1"
    by (simp add: convertLabPBRToBedrock_try_def Let_def ls ethen_push ebind_ecall_Inr dir_def
          r1_def rest_def convertLabPBRToBedrock_result_def)
  have conv: "convertLabPBRToBedrock p sp np bp out options
              = (case ethen (saveMER p options dir bp s n) rest r1 of
                   (Inl e, r') \<Rightarrow>
                     Inr (r'\<lparr>res_messages := res_messages r' @ [''Error: '' @ error_message e]\<rparr>)
                 | (Inr x, r') \<Rightarrow> Inr x)"
    unfolding convertLabPBRToBedrock_def Let_def try_catch_error body ..
  have r1: "res_outputPaths r1 ''mer'' = None" "\<not> res_success r1"
    by (simp_all add: r1_def convertLabPBRToBedrock_result_def)
  have krest: "keeps_mer rest"
    unfolding rest_def
    by (intro mer_ethen mer_saveBedrockNormal mer_saveHeightMap mer_saveBaseColorWithAO mer_final)
  have rrest: "returns_success rest"
    unfolding rest_def by (intro returns_ethen returns_final)
  show ?thesis
  proof (cases "saveTexture p (fst (merFromTextures s n)) path
                  (opt_outputFormat options) (opt_compressionLevel options)")
    case (Inl e)
    hence "saveMER p options dir bp s n r1 = (Inl e, r1)"
      unfolding saveMER_eq path_def by simp
    hence "ethen (saveMER p options dir bp s n) rest r1 = (Inl e, r1)"
      by (simp add: ethen_def ebind_def)
    hence "convertLabPBRToBedrock p sp np bp out options
           = Inr (r1\<lparr>res_messages := res_messages r1 @ [''Error: '' @ error_message e]\<rparr>)"
      unfolding conv by simp
    thus ?thesis using Inl r1 unfolding path_def dir_def by simp
  next
    case (Inr x)
    define r2 where "r2 = r1\<lparr>res_outputPaths := (res_outputPaths r1)(''mer'' \<mapsto> path),
       res_messages := res_messages r1 @
         [''Saved '' @ (if \<exists>j < tex_width s * tex_height s.
                              js_ge (buf_get (chan_b (extractChannels s)) j) 65
                        then ''MERS'' else ''MER'')
          @ '' texture to: '' @ path_basename p path]\<rparr>"
    have "saveMER p options dir bp s n r1 = (Inr (), r2)"
      using Inr unfolding saveMER_eq path_def r2_def by simp
    hence e: "ethen (saveMER p options dir bp s n) rest r1 = rest r2"
      by (simp add: ethen_def ebind_def)
    obtain y r3 where r3: "rest r2 = (y, r3)" by (cases "rest r2")
    have "res_outputPaths r3 ''mer'' = res_outputPaths r2 ''mer''"
      using krest r3 unfolding keeps_mer_def by blast
    hence p3: "res_outputPaths r3 ''mer'' = Some path" by (simp add: r2_def)
    have "\<exists>res. convertLabPBRToBedrock p sp np bp out options = Inr res
             \<and> res_outputPaths res ''mer'' = Some path"
    proof (cases y)
      case (Inl e)
      thus ?thesis unfolding conv e r3 using p3 by simp
    next
      case (Inr z)
      hence "z = r3" using rrest r3 unfolding returns_success_def by blast
      thus ?thesis unfolding conv e r3 using p3 Inr by simp
    qed
    thus ?thesis using Inr unfolding path_def dir_def by simp
  qed
qed

lemma example_loads:
  "loadTexture (texturePlatform exampleTextures) ''foo_s.png'' = Inr smoothSpecular"
  "loadTexture (texturePlatform exampleTextures) ''bar_s.png'' = Inr subsurfaceSpecular"
  "loadTexture (texturePlatform exampleTextures) ''foo_n.png'' = Inr grayExample"
  "loadTexture (texturePlatform exampleTextures) ''foo.png'' = Inr grayExample"
  by code_simp+

lemma example_dir: "string_or (Some ''out'') d = ''out''"
  by (simp add: string_or_def)

lemma example_paths:
  "path_join (texturePlatform exampleTextures) ''out''
     (path_basename_ext (texturePlatform exampleTextures) ''foo.png''
        (path_extname (texturePlatform exampleTextures) ''foo.png'')
      @ ''_mers'' @ path_extname (texturePlatform exampleTextures) ''foo.png'')
   = ''out/foo_mers.png''"
  "path_join (texturePlatform exampleTextures) ''out''
     (path_basename_ext (texturePlatform exampleTextures) ''foo.png''
        (path_extname (texturePlatform exampleTextures) ''foo.png'')
      @ ''_mer'' @ path_extname (texturePlatform exampleTextures) ''foo.png'')
   = ''out/foo_mer.png''"
  "path_basename (texturePlatform exampleTextures) ''out/foo_mer.png'' = ''foo_mer.png''"
  by (simp_all add: texturePlatform_def examplePlatform_def posix_join_def
        posix_basename_ext_def posix_basename_def posix_extname_def endsWith_def slice_end_def)

lemma example_saves:
  "saveTexture (texturePlatform exampleTextures) t ''out/foo_mers.png'' None None
     = Inr ''out/foo_mers.png''"
  "saveTexture (texturePlatform exampleTextures) t ''out/foo_mer.png'' None None
     = Inr ''out/foo_mer.png''"
  by (simp_all add: saveTexture_def texturePlatform_def examplePlatform_def exampleTextures_def
        posix_dirname_def posix_basename_def posix_extname_def Let_def)

text \<open>
  Claim C4. The conversion decides once for the image. The suffix of the file name is
  \<open>_mers\<close> exactly when some pixel of the blue channel of the specular texture is at
  least 65, and \<open>_mer\<close> exactly when none is; when none is, the alpha byte of every pixel
  of the MER texture (offset \<open>4 i + 3\<close>) is 255. \<open>saveMER\<close> passes this texture to
  \<open>saveTexture\<close> under the name of the base texture with the suffix before its
  extension, in the output directory, and records the path once the save has returned. When the three textures load, the result of
  \<open>convertLabPBRToBedrock\<close> records this path under \<open>mer\<close> exactly when saving to it
  succeeds, and otherwise records no MER path and is not successful.
\<close>

theorem subsurface_decision:
  "(snd (snd (merFromTextures s n)) = ''_mers''
      \<longleftrightarrow> (\<exists>j < tex_width s * tex_height s. js_ge (buf_get (chan_b (extractChannels s)) j) 65))
   \<and> (snd (snd (merFromTextures s n)) = ''_mer''
      \<longleftrightarrow> \<not> (\<exists>j < tex_width s * tex_height s. js_ge (buf_get (chan_b (extractChannels s)) j) 65))
   \<and> (\<not> (\<exists>j < tex_width s * tex_height s. js_ge (buf_get (chan_b (extractChannels s)) j) 65)
      \<longrightarrow> (\<forall>i < tex_width s * tex_height s. tex_data (fst (merFromTextures s n)) ! (i * 4 + 3) = 255))
   \<and> saveMER p options finalOutputDir baseTexturePath s n result =
       (case saveTexture p (fst (merFromTextures s n))
               (path_join p finalOutputDir
                  (path_basename_ext p baseTexturePath (path_extname p baseTexturePath)
                   @ (if \<exists>j < tex_width s * tex_height s.
                            js_ge (buf_get (chan_b (extractChannels s)) j) 65
                      then ''_mers'' else ''_mer'')
                   @ path_extname p baseTexturePath))
               (opt_outputFormat options) (opt_compressionLevel options) of
          Inl e \<Rightarrow> (Inl e, result)
        | Inr _ \<Rightarrow>
            (Inr (),
             result\<lparr>res_outputPaths := (res_outputPaths result)(''mer'' \<mapsto>
                  path_join p finalOutputDir
                    (path_basename_ext p baseTexturePath (path_extname p baseTexturePath)
                     @ (if \<exists>j < tex_width s * tex_height s.
                              js_ge (buf_get (chan_b (extractChannels s)) j) 65
                        then ''_mers'' else ''_mer'')
                     @ path_extname p baseTexturePath)),
               res_messages := res_messages result @
                 [''Saved '' @ (if \<exists>j < tex_width s * tex_height s.
                                    js_ge (buf_get (chan_b (extractChannels s)) j) 65
                                then ''MERS'' else ''MER'')
                  @ '' texture to: ''
                  @ path_basename p
                      (path_join p finalOutputDir
                         (path_basename_ext p baseTexturePath (path_extname p baseTexturePath)
                          @ (if \<exists>j < tex_width s * tex_height s.
                                   js_ge (buf_get (chan_b (extractChannels s)) j) 65
                             then ''_mers'' else ''_mer'')
                          @ path_extname p baseTexturePath))]\<rparr>))
   \<and> (loadTexture p specularTexturePath = Inr s \<and> loadTexture p normalTexturePath = Inr n
        \<and> loadTexture p baseTexturePath = Inr b
      \<longrightarrow> (\<exists>res. convertLabPBRToBedrock p specularTexturePath normalTexturePath baseTexturePath
                    outputDir options = Inr res
             \<and> (case saveTexture p (fst (merFromTextures s n))
                       (path_join p (string_or outputDir (path_dirname p specularTexturePath))
                          (path_basename_ext p baseTexturePath (path_extname p baseTexturePath)
                           @ (if \<exists>j < tex_width s * tex_height s.
                                    js_ge (buf_get (chan_b (extractChannels s)) j) 65
                              then ''_mers'' else ''_mer'')
                           @ path_extname p baseTexturePath))
                       (opt_outputFormat options) (opt_compressionLevel options) of
                   Inl e \<Rightarrow> res_outputPaths res ''mer'' = None \<and> \<not> res_success res
                 | Inr _ \<Rightarrow>
                     res_outputPaths res ''mer'' =
                       Some (path_join p (string_or outputDir (path_dirname p specularTexturePath))
                               (path_basename_ext p baseTexturePath (path_extname p baseTexturePath)
                                @ (if \<exists>j < tex_width s * tex_height s.
                                         js_ge (buf_get (chan_b (extractChannels s)) j) 65
                                   then ''_mers'' else ''_mer'')
                                @ path_extname p baseTexturePath)))))"
proof -
  have suffix: "(snd (snd (merFromTextures s n)) = ''_mers''
      \<longleftrightarrow> (\<exists>j < tex_width s * tex_height s. js_ge (buf_get (chan_b (extractChannels s)) j) 65))
   \<and> (snd (snd (merFromTextures s n)) = ''_mer''
      \<longleftrightarrow> \<not> (\<exists>j < tex_width s * tex_height s. js_ge (buf_get (chan_b (extractChannels s)) j) 65))
   \<and> (\<not> (\<exists>j < tex_width s * tex_height s. js_ge (buf_get (chan_b (extractChannels s)) j) 65)
      \<longrightarrow> (\<forall>i < tex_width s * tex_height s. tex_data (fst (merFromTextures s n)) ! (i * 4 + 3) = 255))"
  proof (cases "\<exists>j < tex_width s * tex_height s. js_ge (buf_get (chan_b (extractChannels s)) j) 65")
    case True
    hence "hasSubsurface_scan (chan_b (extractChannels s)) (tex_width s * tex_height s) 0"
      unfolding hasSubsurface_scan_0 .
    hence "snd (snd (merFromTextures s n)) = ''_mers''"
      by (simp only: merFromTextures_cases if_True snd_conv)
    thus ?thesis using True by simp
  next
    case False
    hence "\<not> hasSubsurface_scan (chan_b (extractChannels s)) (tex_width s * tex_height s) 0"
      unfolding hasSubsurface_scan_0 .
    hence m: "merFromTextures s n =
       (forceOpaqueAlpha
          (createMERTexture (extractChannels s) (extractChannels n) (tex_width s) (tex_height s)),
        False, ''_mer'')"
      by (simp only: merFromTextures_cases if_False)
    have "tex_data (fst (merFromTextures s n)) ! (i * 4 + 3) = 255"
      if i: "i < tex_width s * tex_height s" for i
      unfolding m fst_conv using False i by (rule forceOpaqueAlpha_alpha)
    moreover have "snd (snd (merFromTextures s n)) = ''_mer''"
      unfolding m by simp
    ultimately show ?thesis using False by auto
  qed
  note save = saveMER_eq [of p options finalOutputDir baseTexturePath s n result]
  have conv: "loadTexture p specularTexturePath = Inr s \<and> loadTexture p normalTexturePath = Inr n
        \<and> loadTexture p baseTexturePath = Inr b
      \<longrightarrow> (\<exists>res. convertLabPBRToBedrock p specularTexturePath normalTexturePath baseTexturePath
                    outputDir options = Inr res
             \<and> (case saveTexture p (fst (merFromTextures s n))
                       (path_join p (string_or outputDir (path_dirname p specularTexturePath))
                          (path_basename_ext p baseTexturePath (path_extname p baseTexturePath)
                           @ (if \<exists>j < tex_width s * tex_height s.
                                    js_ge (buf_get (chan_b (extractChannels s)) j) 65
                              then ''_mers'' else ''_mer'')
                           @ path_extname p baseTexturePath))
                       (opt_outputFormat options) (opt_compressionLevel options) of
                   Inl e \<Rightarrow> res_outputPaths res ''mer'' = None \<and> \<not> res_success res
                 | Inr _ \<Rightarrow>
                     res_outputPaths res ''mer'' =
                       Some (path_join p (string_or outputDir (path_dirname p specularTexturePath))
                               (path_basename_ext p baseTexturePath (path_extname p baseTexturePath)
                                @ (if \<exists>j < tex_width s * tex_height s.
                                         js_ge (buf_get (chan_b (extractChannels s)) j) 65
                                   then ''_mers'' else ''_mer'')
                                @ path_extname p baseTexturePath))))"
  proof (intro impI)
    assume l: "loadTexture p specularTexturePath = Inr s \<and> loadTexture p normalTexturePath = Inr n
        \<and> loadTexture p baseTexturePath = Inr b"
    show "\<exists>res. convertLabPBRToBedrock p specularTexturePath normalTexturePath baseTexturePath
                    outputDir options = Inr res
             \<and> (case saveTexture p (fst (merFromTextures s n))
                       (path_join p (string_or outputDir (path_dirname p specularTexturePath))
                          (path_basename_ext p baseTexturePath (path_extname p baseTexturePath)
                           @ (if \<exists>j < tex_width s * tex_height s.
                                    js_ge (buf_get (chan_b (extractChannels s)) j) 65
                              then ''_mers'' else ''_mer'')
                           @ path_extname p baseTexturePath))
                       (opt_outputFormat options) (opt_compressionLevel options) of
                   Inl e \<Rightarrow> res_outputPaths res ''mer'' = None \<and> \<not> res_success res
                 | Inr _ \<Rightarrow>
                     res_outputPaths res ''mer'' =
                       Some (path_join p (string_or outputDir (path_dirname p specularTexturePath))
                               (path_basename_ext p baseTexturePath (path_extname p baseTexturePath)
                                @ (if \<exists>j < tex_width s * tex_height s.
                                         js_ge (buf_get (chan_b (extractChannels s)) j) 65
                                   then ''_mers'' else ''_mer'')
                                @ path_extname p baseTexturePath)))"
      by (rule convertLabPBRToBedrock_mer
                 [OF l [THEN conjunct1] l [THEN conjunct2, THEN conjunct1]
                     l [THEN conjunct2, THEN conjunct2]])
  qed
  from suffix have s1: "snd (snd (merFromTextures s n)) = ''_mers''
      \<longleftrightarrow> (\<exists>j < tex_width s * tex_height s. js_ge (buf_get (chan_b (extractChannels s)) j) 65)"
    and s2: "snd (snd (merFromTextures s n)) = ''_mer''
      \<longleftrightarrow> \<not> (\<exists>j < tex_width s * tex_height s. js_ge (buf_get (chan_b (extractChannels s)) j) 65)"
    and s3: "\<not> (\<exists>j < tex_width s * tex_height s. js_ge (buf_get (chan_b (extractChannels s)) j) 65)
      \<longrightarrow> (\<forall>i < tex_width s * tex_height s. tex_data (fst (merFromTextures s n)) ! (i * 4 + 3) = 255)"
    by (rule conjunct1, rule conjunct2 [THEN conjunct1], rule conjunct2 [THEN conjunct2])
  show ?thesis
    by (intro conjI) (rule s1 s2 s3 save conv)+
qed

theorem subsurface_decision_witness:
  "js_ge (buf_get (chan_b (extractChannels subsurfaceSpecular)) 1) 65
   \<and> snd (snd (merFromTextures subsurfaceSpecular grayExample)) = ''_mers''
   \<and> \<not> hasSubsurface_scan (chan_b (extractChannels smoothSpecular)) (2 * 2) 0
   \<and> snd (snd (merFromTextures smoothSpecular grayExample)) = ''_mer''
   \<and> tex_data (fst (merFromTextures smoothSpecular grayExample)) ! (3 * 4 + 3) = 255
   \<and> loadTexture (texturePlatform exampleTextures) ''bar_s.png'' = Inr subsurfaceSpecular
   \<and> loadTexture (texturePlatform exampleTextures) ''foo_s.png'' = Inr smoothSpecular
   \<and> loadTexture (texturePlatform exampleTextures) ''foo_n.png'' = Inr grayExample
   \<and> loadTexture (texturePlatform exampleTextures) ''foo.png'' = Inr grayExample
   \<and> saveMER (texturePlatform exampleTextures) noOptions ''out'' ''foo.png'' smoothSpecular
         grayExample (convertLabPBRToBedrock_result ''foo_s.png'')
       = (Inr (),
          (convertLabPBRToBedrock_result ''foo_s.png'')
            \<lparr>res_outputPaths := [''mer'' \<mapsto> ''out/foo_mer.png''],
             res_messages := [''Saved MER texture to: foo_mer.png'']\<rparr>)
   \<and> (\<exists>res. convertLabPBRToBedrock (texturePlatform exampleTextures)
               ''bar_s.png'' ''foo_n.png'' ''foo.png'' (Some ''out'') noOptions = Inr res
         \<and> res_outputPaths res ''mer'' = Some ''out/foo_mers.png'')
   \<and> (\<exists>res. convertLabPBRToBedrock (texturePlatform exampleTextures)
               ''foo_s.png'' ''foo_n.png'' ''foo.png'' (Some ''out'') noOptions = Inr res
         \<and> res_outputPaths res ''mer'' = Some ''out/foo_mer.png'')"
proof -
  let ?P = "texturePlatform exampleTextures"
  note t1 = subsurface_decision
    [where s = subsurfaceSpecular and n = grayExample and b = grayExample and p = ?P
       and specularTexturePath = "''bar_s.png''" and normalTexturePath = "''foo_n.png''"
       and baseTexturePath = "''foo.png''" and outputDir = "Some ''out''" and options = noOptions]
  note t2 = subsurface_decision
    [where s = smoothSpecular and n = grayExample and b = grayExample and p = ?P
       and specularTexturePath = "''foo_s.png''" and normalTexturePath = "''foo_n.png''"
       and baseTexturePath = "''foo.png''" and outputDir = "Some ''out''" and options = noOptions
       and finalOutputDir = "''out''" and result = "convertLabPBRToBedrock_result ''foo_s.png''"]
  have b1: "js_ge (buf_get (chan_b (extractChannels subsurfaceSpecular)) 1) 65"
    by code_simp
  have wh: "tex_width subsurfaceSpecular * tex_height subsurfaceSpecular = 4"
           "tex_width smoothSpecular * tex_height smoothSpecular = 4"
    by (simp_all add: subsurfaceSpecular_def smoothSpecular_def)
  have ex: "\<exists>j < tex_width subsurfaceSpecular * tex_height subsurfaceSpecular.
              js_ge (buf_get (chan_b (extractChannels subsurfaceSpecular)) j) 65"
    unfolding wh using b1 by (intro exI [of _ 1]) simp
  have s1: "snd (snd (merFromTextures subsurfaceSpecular grayExample)) = ''_mers''"
    using t1 [THEN conjunct1] ex by (rule iffD2)
  have n0: "\<not> hasSubsurface_scan (chan_b (extractChannels smoothSpecular)) (2 * 2) 0"
    by code_simp
  hence nex: "\<not> (\<exists>j < tex_width smoothSpecular * tex_height smoothSpecular.
              js_ge (buf_get (chan_b (extractChannels smoothSpecular)) j) 65)"
    unfolding wh hasSubsurface_scan_0 by simp
  have s2: "snd (snd (merFromTextures smoothSpecular grayExample)) = ''_mer''"
    using t2 [THEN conjunct2, THEN conjunct1] nex by (rule iffD2)
  have "\<forall>i < tex_width smoothSpecular * tex_height smoothSpecular.
          tex_data (fst (merFromTextures smoothSpecular grayExample)) ! (i * 4 + 3) = 255"
    using t2 [THEN conjunct2, THEN conjunct2, THEN conjunct1] nex by (rule mp)
  hence "(3::nat) < 4 \<longrightarrow>
          tex_data (fst (merFromTextures smoothSpecular grayExample)) ! (3 * 4 + 3) = 255"
    unfolding wh by (rule spec)
  hence a: "tex_data (fst (merFromTextures smoothSpecular grayExample)) ! (3 * 4 + 3) = 255"
    by simp
  note l = example_loads
  have c1: "\<exists>res. convertLabPBRToBedrock ?P ''bar_s.png'' ''foo_n.png'' ''foo.png'' (Some ''out'')
                     noOptions = Inr res
         \<and> res_outputPaths res ''mer'' = Some ''out/foo_mers.png''"
    using t1 [THEN conjunct2, THEN conjunct2, THEN conjunct2, THEN conjunct2]
    by (simp only: l ex if_True example_dir example_paths) (simp add: noOptions_def example_saves)
  have c2: "\<exists>res. convertLabPBRToBedrock ?P ''foo_s.png'' ''foo_n.png'' ''foo.png'' (Some ''out'')
                     noOptions = Inr res
         \<and> res_outputPaths res ''mer'' = Some ''out/foo_mer.png''"
    using t2 [THEN conjunct2, THEN conjunct2, THEN conjunct2, THEN conjunct2]
    by (simp only: l nex if_False example_dir example_paths) (simp add: noOptions_def example_saves)
  have m: "saveMER ?P noOptions ''out'' ''foo.png'' smoothSpecular grayExample
             (convertLabPBRToBedrock_result ''foo_s.png'')
           = (Inr (),
              (convertLabPBRToBedrock_result ''foo_s.png'')
                \<lparr>res_outputPaths := [''mer'' \<mapsto> ''out/foo_mer.png''],
                 res_messages := [''Saved MER texture to: foo_mer.png'']\<rparr>)"
    using t2 [THEN conjunct2, THEN conjunct2, THEN conjunct2, THEN conjunct1]
    by (simp only: nex if_False example_paths)
       (simp add: noOptions_def example_saves convertLabPBRToBedrock_result_def)
  show ?thesis
    by (intro conjI) (rule b1 s1 n0 s2 a l m c1 c2)+
qed

end
